theory Spec2Isabelle
  imports Main "HOL-Library.Sublist" "HOL-Library.Code_Target_Numeral"
begin

section \<open>The proxy command of signet-cli\<close>

text \<open>
  The command \<open>proxy\<close> validates its five flags, writes a configuration file for the
  recording engine (mountebank), starts the engine as a child process, registers a
  listener for the interrupt signal, and waits for the child. Each interrupt received by
  the listener runs \<open>utils.CreatePact\<close>.

  Go strings are byte sequences and so are HOL strings. An error value is either made
  by \<open>errors.New\<close> or is the \<open>*strconv.NumError\<close> of a failed conversion. The
  failure of an operation outside the program (writing a file, starting or awaiting the
  child) is given by the text that its \<open>Error()\<close> method returns.
\<close>

subsection \<open>Errors and documents\<close>

datatype num_err = ErrSyntax | ErrRange

datatype error =
    ErrorString string
  | NumError string string num_err

text \<open>
  A JSON document is kept as a tree: the order of an object's members is the order in
  which \<open>encoding/json\<close> writes the fields of a struct.
\<close>

datatype json =
    JNull
  | JBool bool
  | JInt int
  | JString string
  | JArray "json list"
  | JObject "(string \<times> json) list"

subsection \<open>The conversion of the port: \<open>strconv.Atoi\<close>\<close>

text \<open>
  \<open>strconv.Atoi s\<close> is \<open>ParseInt s 10 0\<close> with the function name of the error
  replaced by \<open>Atoi\<close>; \<open>int\<close> has 64 bits. The digits are read by the loop of
  \<open>ParseUint\<close>, which stops at the first byte that is no decimal digit (a syntax
  error) or at the first overflow of an unsigned 64-bit accumulator (a range error).
\<close>

definition maxUint64 :: nat where
  "maxUint64 = 2 ^ 64 - 1"

definition is_digit :: "char \<Rightarrow> bool" where
  "is_digit c \<longleftrightarrow> 48 \<le> (of_char c :: nat) \<and> (of_char c :: nat) \<le> 57"

definition digit_val :: "char \<Rightarrow> nat" where
  "digit_val c = of_char c - 48"

fun parseUint_loop :: "nat \<Rightarrow> string \<Rightarrow> num_err + nat" where
  "parseUint_loop n [] = Inr n"
| "parseUint_loop n (c # cs) =
     (if \<not> is_digit c then Inl ErrSyntax
      else if n \<ge> maxUint64 div 10 + 1 then Inl ErrRange
      else if n * 10 + digit_val c > maxUint64 then Inl ErrRange
      else parseUint_loop (n * 10 + digit_val c) cs)"

definition ParseUint :: "string \<Rightarrow> num_err + nat" where
  "ParseUint s = (if s = [] then Inl ErrSyntax else parseUint_loop 0 s)"

definition ParseInt :: "string \<Rightarrow> num_err + int" where
  "ParseInt s =
     (case s of
        [] \<Rightarrow> Inl ErrSyntax
      | c # cs \<Rightarrow>
          let neg = (c = CHR ''-'');
              body = (if c = CHR ''+'' \<or> c = CHR ''-'' then cs else s)
          in (case ParseUint body of
                Inl ErrSyntax \<Rightarrow> Inl ErrSyntax
              | Inl ErrRange \<Rightarrow> Inl ErrRange
              | Inr un \<Rightarrow>
                  if \<not> neg \<and> un \<ge> 2 ^ 63 then Inl ErrRange
                  else if neg \<and> un > 2 ^ 63 then Inl ErrRange
                  else Inr (if neg then - int un else int un)))"

definition Atoi :: "string \<Rightarrow> error + int" where
  "Atoi s = (case ParseInt s of
               Inl e \<Rightarrow> Inl (NumError ''Atoi'' s e)
             | Inr i \<Rightarrow> Inr i)"

subsection \<open>The world outside the program\<close>

text \<open>
  The effects of the command are kept in a record: the documents it has written, the
  capture directories of the engine, the paths at which a write fails (with the text of
  the failure), the metadata (with its timestamps) that a contract written at this
  instant carries, the state of the child process, and the log of every effect in the order
  in which it happened.
\<close>

record RecordedInteraction =
  ri_method :: string
  ri_path :: string
  ri_query :: string
  ri_requestHeaders :: "(string \<times> string) list"
  ri_requestBody :: json
  ri_status :: int
  ri_responseHeaders :: "(string \<times> string) list"
  ri_responseBody :: json
  ri_captureSequence :: nat

datatype entry = Captured RecordedInteraction | Malformed

datatype dir_state = Missing | Unreadable string | Entries "entry list"

datatype child_state = NotStarted | Running "string list" | Exited

datatype event =
    EvWriteFile string json
  | EvStart "string list"
  | EvPrintln string
  | EvWarn string
  | EvNotify
  | EvGo
  | EvWaitReturned
  | EvLogFatal error

record world =
  files :: "string \<rightharpoonup> json"
  store :: "string \<Rightarrow> dir_state"
  write_fault :: "string \<rightharpoonup> string"
  stamp :: json
  child :: child_state
  trace :: "event list"

definition emit :: "event \<Rightarrow> world \<Rightarrow> world" where
  "emit e w = w\<lparr>trace := trace w @ [e]\<rparr>"

definition Println :: "string \<Rightarrow> world \<Rightarrow> world" where
  "Println s w = emit (EvPrintln s) w"

text \<open>
  \<open>osWriteFile\<close> is the package's handle on \<open>os.WriteFile\<close>: it replaces the file
  at the path, or fails and leaves the documents as they are.
\<close>

definition osWriteFile :: "string \<Rightarrow> json \<Rightarrow> world \<Rightarrow> string option \<times> world" where
  "osWriteFile p d w =
     (case write_fault w p of
        Some msg \<Rightarrow> (Some msg, w)
      | None \<Rightarrow> (None, emit (EvWriteFile p d) (w\<lparr>files := (files w)(p \<mapsto> d)\<rparr>)))"

subsection \<open>The flags\<close>

definition validateProxyFlags ::
  "string \<Rightarrow> string \<Rightarrow> string \<Rightarrow> string \<Rightarrow> string \<Rightarrow> error option" where
  "validateProxyFlags path port target name providerName =
     (if length path = 0 then
        Some (ErrorString ''No --path was provided. This is a required flag.'')
      else if length port = 0 then
        Some (ErrorString ''No --port was provided. This is a required flag.'')
      else if length target = 0 then
        Some (ErrorString ''No --target was provided. This is a required flag.'')
      else if length name = 0 then
        Some (ErrorString ''No --name was provided. This is a required flag.'')
      else if length providerName = 0 then
        Some (ErrorString ''No --provider-name was provided. This is a required flag.'')
      else None)"

subsection \<open>Strings in a JSON document\<close>

text \<open>
  \<open>encoding/json\<close> writes a Go string as valid UTF-8. It walks the bytes with
  \<open>utf8.DecodeRuneInString\<close> (on at most \<open>utf8.UTFMax = 4\<close> bytes at a time) and
  writes U+FFFD in place of every byte at which no rune can be decoded; the bytes of a
  rune that decodes are kept. Escapes such as \<open><\<close> are a matter of the text only:
  the tree keeps the string that a reader of the document gets back.

  \<open>utf8_first\<close> is the table \<open>first\<close> of package \<open>unicode/utf8\<close>: for a leading
  byte, the length of its sequence and the range accepted for the second byte.
\<close>

datatype lead = Ascii | Invalid | Lead nat nat nat

definition utf8_first :: "char \<Rightarrow> lead" where
  "utf8_first c =
     (let b = (of_char c :: nat)
      in if b < 0x80 then Ascii
         else if b < 0xC2 then Invalid
         else if b < 0xE0 then Lead 2 0x80 0xBF
         else if b = 0xE0 then Lead 3 0xA0 0xBF
         else if b < 0xED then Lead 3 0x80 0xBF
         else if b = 0xED then Lead 3 0x80 0x9F
         else if b < 0xF0 then Lead 3 0x80 0xBF
         else if b = 0xF0 then Lead 4 0x90 0xBF
         else if b < 0xF4 then Lead 4 0x80 0xBF
         else if b = 0xF4 then Lead 4 0x80 0x8F
         else Invalid)"

definition byte_in :: "nat \<Rightarrow> nat \<Rightarrow> char \<Rightarrow> bool" where
  "byte_in lo hi c \<longleftrightarrow> lo \<le> (of_char c :: nat) \<and> (of_char c :: nat) \<le> hi"

text \<open>
  The size that \<open>utf8.DecodeRuneInString\<close> returns with a rune that decodes;
  \<open>None\<close> when it returns \<open>RuneError\<close> for a byte that decodes to nothing.
\<close>

definition DecodeRuneInString :: "string \<Rightarrow> nat option" where
  "DecodeRuneInString s =
     (case s of
        [] \<Rightarrow> None
      | s0 # rest \<Rightarrow>
          (case utf8_first s0 of
             Ascii \<Rightarrow> Some 1
           | Invalid \<Rightarrow> None
           | Lead sz lo hi \<Rightarrow>
               if length s < sz then None
               else if \<not> byte_in lo hi (s ! 1) then None
               else if sz \<le> 2 then Some 2
               else if \<not> byte_in 0x80 0xBF (s ! 2) then None
               else if sz \<le> 3 then Some 3
               else if \<not> byte_in 0x80 0xBF (s ! 3) then None
               else Some 4))"

definition replacement :: string where
  "replacement = [CHR 0xEF, CHR 0xBF, CHR 0xBD]"

fun coerceUTF8 :: "string \<Rightarrow> string" where
  "coerceUTF8 [] = []"
| "coerceUTF8 (c # cs) =
     (case DecodeRuneInString (take 4 (c # cs)) of
        None \<Rightarrow> replacement @ coerceUTF8 cs
      | Some sz \<Rightarrow> take sz (c # cs) @ coerceUTF8 (drop (sz - 1) cs))"

declare coerceUTF8.simps(2) [simp del]

text \<open>\<open>utf8.ValidString\<close>: every byte belongs to a rune that decodes.\<close>

fun ValidString :: "string \<Rightarrow> bool" where
  "ValidString [] = True"
| "ValidString (c # cs) =
     (case DecodeRuneInString (take 4 (c # cs)) of
        None \<Rightarrow> False
      | Some sz \<Rightarrow> ValidString (drop (sz - 1) cs))"

subsection \<open>The configuration of the engine\<close>

text \<open>
  Modelled from the spec: the types \<open>utils.ProxyConfig\<close>, \<open>utils.MbStub\<close>,
  \<open>utils.MbResponse\<close> and \<open>utils.MbProxy\<close> are declared in the package \<open>utils\<close>.
  Their fields are those of the composite literal in \<open>setupMbConfig\<close>; the member names
  of the document are those of the engine config file of the spec:
  \<open>{port, name, protocol, stubs:[{responses:[{proxy:{to, mode}}]}]}\<close>.
\<close>

record MbProxy =
  To :: string
  Mode :: string

record MbResponse =
  Proxy :: MbProxy

record MbStub =
  Responses :: "MbResponse list"

record ProxyConfig =
  Port :: int
  Name :: string
  Protocol :: string
  Stubs :: "MbStub list"

definition MbProxy_json :: "MbProxy \<Rightarrow> json" where
  "MbProxy_json p =
     JObject [(''to'', JString (coerceUTF8 (To p))), (''mode'', JString (coerceUTF8 (Mode p)))]"

definition MbResponse_json :: "MbResponse \<Rightarrow> json" where
  "MbResponse_json r = JObject [(''proxy'', MbProxy_json (Proxy r))]"

definition MbStub_json :: "MbStub \<Rightarrow> json" where
  "MbStub_json s = JObject [(''responses'', JArray (map MbResponse_json (Responses s)))]"

definition ProxyConfig_json :: "ProxyConfig \<Rightarrow> json" where
  "ProxyConfig_json c =
     JObject [(''port'', JInt (Port c)),
              (''name'', JString (coerceUTF8 (Name c))),
              (''protocol'', JString (coerceUTF8 (Protocol c))),
              (''stubs'', JArray (map MbStub_json (Stubs c)))]"

text \<open>
  \<open>json.Marshal\<close> of a \<open>ProxyConfig\<close>: a struct of integers, strings and slices
  of such structs has no value that the encoder refuses, so the result is never an error.
  Every string of the struct is written as valid UTF-8.
\<close>

definition json_Marshal :: "ProxyConfig \<Rightarrow> error + json" where
  "json_Marshal c = Inr (ProxyConfig_json c)"

definition proxyConfig_of :: "int \<Rightarrow> string \<Rightarrow> ProxyConfig" where
  "proxyConfig_of portInt target =
     \<lparr>Port = portInt,
      Name = ''signet-proxy'',
      Protocol = ''http'',
      Stubs = [\<lparr>Responses = [\<lparr>Proxy = \<lparr>To = target, Mode = ''proxyOnce''\<rparr>\<rparr>]\<rparr>]\<rparr>"

definition setupMbConfig :: "string \<Rightarrow> string \<Rightarrow> string \<Rightarrow> world \<Rightarrow> error option \<times> world" where
  "setupMbConfig port target configPath w =
     (case Atoi port of
        Inl err \<Rightarrow> (Some err, w)
      | Inr portInt \<Rightarrow>
          (case json_Marshal (proxyConfig_of portInt target) of
             Inl err \<Rightarrow> (Some err, w)
           | Inr jsonBytes \<Rightarrow>
               (case osWriteFile configPath jsonBytes w of
                  (Some msg, w') \<Rightarrow>
                    (Some (ErrorString (''failed to write mountebank config file: '' @ msg)), w')
                | (None, w') \<Rightarrow> (None, w'))))"

subsection \<open>Reading the captures, synthesizing and writing the contract\<close>

text \<open>
  Modelled from the spec: \<open>utils.CreatePact\<close> and what it calls live in the package
  \<open>utils\<close>. The Interaction Store Reader (4.4) turns a capture directory into the sequence
  of its well-formed records, in capture order; a missing or empty directory gives the
  empty sequence, an unreadable one a read error, and a malformed record is skipped with
  a warning.
\<close>

fun valid_records :: "entry list \<Rightarrow> RecordedInteraction list" where
  "valid_records [] = []"
| "valid_records (Captured r # es) = r # valid_records es"
| "valid_records (Malformed # es) = valid_records es"

definition readInteractions ::
  "string \<Rightarrow> world \<Rightarrow> (error + RecordedInteraction list) \<times> world" where
  "readInteractions dir w =
     (case store w dir of
        Missing \<Rightarrow> (Inr [], w)
      | Unreadable msg \<Rightarrow> (Inl (ErrorString msg), w)
      | Entries es \<Rightarrow>
          (Inr (valid_records es),
           w\<lparr>trace := trace w @ map (\<lambda>_. EvWarn dir) (filter (\<lambda>e. e = Malformed) es)\<rparr>))"

text \<open>
  Modelled from the spec: the Contract Synthesizer (4.5) walks the records in capture
  order with the keys seen so far; the key of a record is its method, path, query,
  request body, response status, response body and response headers. A record with a new
  key becomes an interaction, described by its method and path; a record with a seen key
  is skipped. The result comes with the flag that says whether there is any interaction.
\<close>

type_synonym key = "string \<times> string \<times> string \<times> json \<times> int \<times> json \<times> (string \<times> string) list"

definition record_key :: "RecordedInteraction \<Rightarrow> key" where
  "record_key r =
     (ri_method r, ri_path r, ri_query r, ri_requestBody r,
      ri_status r, ri_responseBody r, ri_responseHeaders r)"

record Interaction =
  description :: string
  request :: json
  response :: json

record Contract =
  consumer :: string
  provider :: string
  interactions :: "Interaction list"
  metadata :: json

definition headers_json :: "(string \<times> string) list \<Rightarrow> json" where
  "headers_json hs = JObject (map (\<lambda>(k, v). (k, JString v)) hs)"

definition interaction_of :: "RecordedInteraction \<Rightarrow> Interaction" where
  "interaction_of r =
     \<lparr>description = ri_method r @ '' '' @ ri_path r,
      request = JObject [(''method'', JString (ri_method r)),
                         (''path'', JString (ri_path r)),
                         (''query'', JString (ri_query r)),
                         (''headers'', headers_json (ri_requestHeaders r)),
                         (''body'', ri_requestBody r)],
      response = JObject [(''status'', JInt (ri_status r)),
                          (''headers'', headers_json (ri_responseHeaders r)),
                          (''body'', ri_responseBody r)]\<rparr>"

fun first_seen :: "key list \<Rightarrow> RecordedInteraction list \<Rightarrow> RecordedInteraction list" where
  "first_seen seen [] = []"
| "first_seen seen (r # rs) =
     (if record_key r \<in> set seen then first_seen seen rs
      else r # first_seen (record_key r # seen) rs)"

definition synthesize ::
  "RecordedInteraction list \<Rightarrow> string \<Rightarrow> string \<Rightarrow> json \<Rightarrow> Contract \<times> bool" where
  "synthesize rs consumerName providerName meta =
     (let is = map interaction_of (first_seen [] rs)
      in (\<lparr>consumer = consumerName, provider = providerName,
           interactions = is, metadata = meta\<rparr>,
          is \<noteq> []))"

text \<open>
  Modelled from the spec: the Contract Writer (4.6) serializes the contract to the output
  contract document \<open>{consumer:{name}, provider:{name}, interactions:[{description,
  request, response}], metadata}\<close> and writes it to the destination, replacing the file
  there; a failure of the file system is a write error.
\<close>

definition Interaction_json :: "Interaction \<Rightarrow> json" where
  "Interaction_json i =
     JObject [(''description'', JString (description i)),
              (''request'', request i),
              (''response'', response i)]"

definition Contract_json :: "Contract \<Rightarrow> json" where
  "Contract_json c =
     JObject [(''consumer'', JObject [(''name'', JString (consumer c))]),
              (''provider'', JObject [(''name'', JString (provider c))]),
              (''interactions'', JArray (map Interaction_json (interactions c))),
              (''metadata'', metadata c)]"

definition writeContract :: "string \<Rightarrow> Contract \<Rightarrow> world \<Rightarrow> error option \<times> world" where
  "writeContract p c w =
     (case osWriteFile p (Contract_json c) w of
        (Some msg, w') \<Rightarrow> (Some (ErrorString msg), w')
      | (None, w') \<Rightarrow> (None, w'))"

text \<open>
  Modelled from the spec: \<open>utils.CreatePact stubsDir path name providerName\<close> is one
  pass Reader, Synthesizer, Writer. It returns the error of the pass (if any) and the
  flag that says whether interactions were there; with no interaction nothing is written.
\<close>

definition CreatePact ::
  "string \<Rightarrow> string \<Rightarrow> string \<Rightarrow> string \<Rightarrow> world \<Rightarrow> (error option \<times> bool) \<times> world" where
  "CreatePact stubsDir path name providerName w =
     (case readInteractions stubsDir w of
        (Inl err, w1) \<Rightarrow> ((Some err, False), w1)
      | (Inr rs, w1) \<Rightarrow>
          (case synthesize rs name providerName (stamp w1) of
             (pact, ok) \<Rightarrow>
               if \<not> ok then ((None, False), w1)
               else (case writeContract path pact w1 of
                       (Some err, w2) \<Rightarrow> ((Some err, False), w2)
                     | (None, w2) \<Rightarrow> ((None, True), w2))))"

text \<open>The body of a contract document is the document without its metadata.\<close>

definition contract_body :: "json \<Rightarrow> json" where
  "contract_body d =
     (case d of
        JObject ms \<Rightarrow> JObject (filter (\<lambda>(k, v). k \<noteq> ''metadata'') ms)
      | _ \<Rightarrow> d)"

subsection \<open>The command\<close>

text \<open>
  The colour codes are those that the sibling command \<open>test\<close> spells out:
  \<open>"\033[32m"\<close> and \<open>"\033[0m"\<close>.
\<close>

definition colorGreen :: string where
  "colorGreen = CHR 0x1B # ''[32m''"

definition colorReset :: string where
  "colorReset = CHR 0x1B # ''[0m''"

definition nl :: string where
  "nl = [CHR 0x0A]"

text \<open>
  The values that viper hands to the command, and what the command meets outside:
  the result of \<open>getNpmPkgRoot\<close>, the failure (if any) of \<open>mbCmd.Start\<close>, and what
  happens while the command waits, in the order in which it happens: an interrupt is
  received by the listener, the engine captures an exchange into a directory, or the
  child ends, with the failure (if any) that \<open>mbCmd.Wait\<close> then returns.
\<close>

record flags =
  proxy_path :: string
  proxy_port :: string
  proxy_target :: string
  proxy_name :: string
  proxy_provider_name :: string

datatype run_event =
    Interrupt
  | Capture string entry
  | Tick json
  | ChildExit "string option"

text \<open>
  How the command stands: it has returned from \<open>RunE\<close> (with an error or with
  \<open>nil\<close>), the process was ended by \<open>os.Exit\<close> (which is how \<open>log.Fatal\<close> ends),
  or it is still blocked in \<open>mbCmd.Wait\<close>.
\<close>

datatype outcome = Return "error option" | OsExit nat | Blocked

definition mbCmd_Start :: "string list \<Rightarrow> string option \<Rightarrow> world \<Rightarrow> string option \<times> world" where
  "mbCmd_Start args failure w =
     (case failure of
        Some msg \<Rightarrow> (Some msg, w)
      | None \<Rightarrow> (None, emit (EvStart args) (w\<lparr>child := Running args\<rparr>)))"

definition signal_Notify :: "world \<Rightarrow> world" where
  "signal_Notify w = emit EvNotify w"

definition log_Fatal :: "error \<Rightarrow> world \<Rightarrow> outcome \<times> world" where
  "log_Fatal err w = (OsExit 1, emit (EvLogFatal err) w)"

text \<open>One turn of the loop \<open>for range c\<close>: \<open>None\<close> when the loop goes on.\<close>

definition on_interrupt ::
  "string \<Rightarrow> string \<Rightarrow> string \<Rightarrow> string \<Rightarrow> world \<Rightarrow> outcome option \<times> world" where
  "on_interrupt stubsDir path name providerName w =
     (case CreatePact stubsDir path name providerName
             (Println (nl @ nl @ ''generating consumer contract...'') w) of
        ((Some err, ok), w') \<Rightarrow> (case log_Fatal err w' of (out, w'') \<Rightarrow> (Some out, w''))
      | ((None, ok), w') \<Rightarrow>
          if ok then
            (None, Println (nl @ colorGreen @ ''Success'' @ colorReset
                     @ '' - Signet proxy wrote the consumer contract to '' @ path) w')
          else
            (None, Println (nl @ ''Info - No contract was generated because Signet proxy did not record any interactions'') w'))"

definition capture :: "string \<Rightarrow> entry \<Rightarrow> world \<Rightarrow> world" where
  "capture dir e w =
     w\<lparr>store := (store w)(dir := (case store w dir of
                                    Entries es \<Rightarrow> Entries (es @ [e])
                                  | Missing \<Rightarrow> Entries [e]
                                  | Unreadable msg \<Rightarrow> Unreadable msg))\<rparr>"

text \<open>
  The listener and \<open>mbCmd.Wait\<close> side by side, one happening at a time: the command
  is blocked until the child ends, unless a pass ends the process before.
\<close>

fun supervise ::
  "string \<Rightarrow> string \<Rightarrow> string \<Rightarrow> string \<Rightarrow> world \<Rightarrow> run_event list \<Rightarrow> outcome \<times> world" where
  "supervise stubsDir path name providerName w [] = (Blocked, w)"
| "supervise stubsDir path name providerName w (Interrupt # es) =
     (case on_interrupt stubsDir path name providerName w of
        (Some out, w') \<Rightarrow> (out, w')
      | (None, w') \<Rightarrow> supervise stubsDir path name providerName w' es)"
| "supervise stubsDir path name providerName w (Capture dir e # es) =
     supervise stubsDir path name providerName (capture dir e w) es"
| "supervise stubsDir path name providerName w (Tick j # es) =
     supervise stubsDir path name providerName (w\<lparr>stamp := j\<rparr>) es"
| "supervise stubsDir path name providerName w (ChildExit failure # es) =
     (case failure of
        Some msg \<Rightarrow>
          (Return (Some (ErrorString (''mountebank exited early: '' @ msg))),
           emit EvWaitReturned (w\<lparr>child := Exited\<rparr>))
      | None \<Rightarrow> (Return None, emit EvWaitReturned (w\<lparr>child := Exited\<rparr>)))"

definition RunE ::
  "flags \<Rightarrow> error + string \<Rightarrow> string option \<Rightarrow> run_event list \<Rightarrow> world \<Rightarrow> outcome \<times> world" where
  "RunE fl npmPkgRoot startFailure sched w =
     (let path = proxy_path fl; port = proxy_port fl; target = proxy_target fl;
          name = proxy_name fl; providerName = proxy_provider_name fl
      in case validateProxyFlags path port target name providerName of
           Some err \<Rightarrow> (Return (Some err), w)
         | None \<Rightarrow>
            (case npmPkgRoot of
               Inl err \<Rightarrow> (Return (Some err), w)
             | Inr signetRoot \<Rightarrow>
                (let mbPath = signetRoot @ ''/node_modules/mountebank'';
                     configPath = signetRoot @ ''/config.ejs'';
                     dataDir = signetRoot @ ''/mbdata'';
                     stubsDir = dataDir @ ''/'' @ port @ ''/stubs''
                 in case setupMbConfig port target configPath w of
                      (Some err, w1) \<Rightarrow> (Return (Some err), w1)
                    | (None, w1) \<Rightarrow>
                       (case mbCmd_Start [''npx'', mbPath, ''--configfile'', configPath,
                                          ''--datadir'', dataDir, ''--debug'', ''--nologfile'']
                               startFailure w1 of
                          (Some msg, w2) \<Rightarrow>
                            (Return (Some (ErrorString (''failed to start mountebank: '' @ msg))), w2)
                        | (None, w2) \<Rightarrow>
                            supervise stubsDir path name providerName
                              (emit EvGo
                                (signal_Notify
                                  (Println (nl @ ''Hit Ctl + C to stop'')
                                    (Println (colorGreen @ ''Listening'' @ colorReset
                                       @ '' - Signet proxy is listening on port '' @ port
                                       @ '' and will proxy messages for '' @ target) w2))))
                              sched))))"

subsection \<open>The order of the effects\<close>

text \<open>
  The effects that a run adds to the log, and the place of the first effect of a kind
  among them.
\<close>

definition new_events :: "world \<Rightarrow> world \<Rightarrow> event list" where
  "new_events w w' = drop (length (trace w)) (trace w')"

fun first_index :: "('a \<Rightarrow> bool) \<Rightarrow> 'a list \<Rightarrow> nat option" where
  "first_index P [] = None"
| "first_index P (x # xs) = (if P x then Some 0 else map_option Suc (first_index P xs))"

definition is_start :: "event \<Rightarrow> bool" where
  "is_start e = (case e of EvStart args \<Rightarrow> True | _ \<Rightarrow> False)"

definition is_notify :: "event \<Rightarrow> bool" where
  "is_notify e = (case e of EvNotify \<Rightarrow> True | _ \<Rightarrow> False)"

definition is_child_exit :: "run_event \<Rightarrow> bool" where
  "is_child_exit e = (case e of ChildExit failure \<Rightarrow> True | _ \<Rightarrow> False)"

subsection \<open>Passes and writes of a schedule\<close>

text \<open>
  No pass that an interrupt of the schedule starts returns an error: the passes are
  followed through the schedule up to the end of the child, each in the world that the
  passes and the captures before it have left.
\<close>

fun passes_succeed ::
  "string \<Rightarrow> string \<Rightarrow> string \<Rightarrow> string \<Rightarrow> world \<Rightarrow> run_event list \<Rightarrow> bool" where
  "passes_succeed stubsDir path name providerName w [] = True"
| "passes_succeed stubsDir path name providerName w (Interrupt # es) =
     (fst (fst (CreatePact stubsDir path name providerName w)) = None
      \<and> passes_succeed stubsDir path name providerName
            (snd (CreatePact stubsDir path name providerName w)) es)"
| "passes_succeed stubsDir path name providerName w (Capture dir e # es) =
     passes_succeed stubsDir path name providerName (capture dir e w) es"
| "passes_succeed stubsDir path name providerName w (Tick j # es) =
     passes_succeed stubsDir path name providerName (w\<lparr>stamp := j\<rparr>) es"
| "passes_succeed stubsDir path name providerName w (ChildExit failure # es) = True"

text \<open>The writes among the effects, in their order: the path and the document of each.\<close>

fun written :: "event list \<Rightarrow> (string \<times> json) list" where
  "written [] = []"
| "written (EvWriteFile p d # evs) = (p, d) # written evs"
| "written (e # evs) = written evs"

subsection \<open>Sample sessions\<close>

definition fresh_world :: world where
  "fresh_world =
     \<lparr>files = Map.empty, store = (\<lambda>dir. Missing), write_fault = Map.empty,
      stamp = JObject [(''generatedAt'', JInt 1)], child = NotStarted, trace = []\<rparr>"

definition sample_flags :: flags where
  "sample_flags =
     \<lparr>proxy_path = ''pact.json'', proxy_port = ''8080'',
      proxy_target = ''http://localhost:3000'', proxy_name = ''web'',
      proxy_provider_name = ''api''\<rparr>"

definition sample_A :: RecordedInteraction where
  "sample_A =
     \<lparr>ri_method = ''GET'', ri_path = ''/users'', ri_query = [],
      ri_requestHeaders = [(''Accept'', ''*/*'')], ri_requestBody = JNull,
      ri_status = 200, ri_responseHeaders = [], ri_responseBody = JArray [],
      ri_captureSequence = 0\<rparr>"

definition sample_B :: RecordedInteraction where
  "sample_B = sample_A\<lparr>ri_method := ''POST'', ri_status := 201, ri_captureSequence := 1\<rparr>"

definition sample_A2 :: RecordedInteraction where
  "sample_A2 =
     sample_A\<lparr>ri_requestHeaders := [(''Accept'', ''application/json'')],
              ri_captureSequence := 2\<rparr>"

definition sample_C :: RecordedInteraction where
  "sample_C = sample_A\<lparr>ri_path := ''/orders'', ri_captureSequence := 3\<rparr>"

definition sample_stubsDir :: string where
  "sample_stubsDir = ''/r/mbdata/8080/stubs''"

definition captured_world :: world where
  "captured_world =
     fresh_world\<lparr>store := (\<lambda>dir. if dir = sample_stubsDir
                                then Entries [Captured sample_A, Captured sample_B,
                                              Captured sample_A2, Captured sample_C]
                                else Missing)\<rparr>"

definition unwritable_world :: world where
  "unwritable_world =
     captured_world\<lparr>write_fault := [''pact.json'' \<mapsto> ''open pact.json: permission denied'']\<rparr>"

section \<open>Properties\<close>

subsection \<open>Strings that are valid UTF-8\<close>

lemma DecodeRuneInString_ascii:
  "of_char c < (0x80::nat) \<Longrightarrow> DecodeRuneInString (c # cs) = Some 1"
  by (simp add: DecodeRuneInString_def utf8_first_def)

lemma coerceUTF8_ascii:
  "of_char c < (0x80::nat) \<Longrightarrow> coerceUTF8 (c # cs) = c # coerceUTF8 cs"
  by (simp add: coerceUTF8.simps(2) DecodeRuneInString_ascii)

lemma utf8_first_Lead:
  "utf8_first c = Lead sz lo hi \<Longrightarrow> sz = 2 \<or> sz = 3 \<or> sz = 4"
  by (simp add: utf8_first_def Let_def split: if_splits)

lemma DecodeRuneInString_size:
  assumes that: "DecodeRuneInString s = Some sz"
  shows "1 \<le> sz \<and> sz \<le> length s"
proof (cases s)
  case Nil
  then show ?thesis using that by (simp add: DecodeRuneInString_def)
next
  case (Cons s0 rest)
  show ?thesis
  proof (cases "utf8_first s0")
    case Ascii
    with Cons that show ?thesis by (simp add: DecodeRuneInString_def)
  next
    case Invalid
    with Cons that show ?thesis by (simp add: DecodeRuneInString_def)
  next
    case (Lead n lo hi)
    from utf8_first_Lead [OF Lead] Lead Cons that show ?thesis
      by (auto simp: DecodeRuneInString_def Suc_le_eq split: if_splits)
  qed
qed

lemma ValidString_coerceUTF8:
  "ValidString s \<Longrightarrow> coerceUTF8 s = s"
proof (induction s rule: ValidString.induct)
  case 1
  then show ?case by simp
next
  case (2 c cs)
  from "2.prems" obtain sz where d: "DecodeRuneInString (take 4 (c # cs)) = Some sz"
    and v: "ValidString (drop (sz - 1) cs)"
    by (auto split: option.splits)
  from DecodeRuneInString_size [OF d] have "1 \<le> sz" by simp
  then have "take sz (c # cs) = c # take (sz - 1) cs" by (cases sz) simp_all
  with d v "2.IH" [OF d v] show ?case by (simp add: coerceUTF8.simps(2))
qed

lemma coerceUTF8_samples:
  "coerceUTF8 ''signet-proxy'' = ''signet-proxy''"
  "coerceUTF8 ''http'' = ''http''"
  "coerceUTF8 ''proxyOnce'' = ''proxyOnce''"
  "coerceUTF8 ''http://localhost:3000'' = ''http://localhost:3000''"
  by (simp_all add: coerceUTF8_ascii)

subsection \<open>Reading the port\<close>

lemmas atoi_defs = Atoi_def ParseInt_def ParseUint_def is_digit_def digit_val_def maxUint64_def

lemma parseUint_loop_digits:
  "parseUint_loop n s = Inr m \<Longrightarrow> \<forall>c\<in>set s. is_digit c"
  by (induction s arbitrary: n) (auto split: if_splits)

lemma Atoi_Inr_digits:
  assumes "Atoi s = Inr i"
  shows "s \<noteq> [] \<and> (is_digit (hd s) \<or> hd s = CHR ''+'' \<or> hd s = CHR ''-'') \<and> (\<forall>c\<in>set (tl s). is_digit c)"
proof (cases s)
  case Nil
  with assms show ?thesis by (simp add: Atoi_def ParseInt_def)
next
  case (Cons c cs)
  define body where "body = (if c = CHR ''+'' \<or> c = CHR ''-'' then cs else s)"
  from assms Cons obtain un where "parseUint_loop 0 body = Inr un"
    by (auto simp: Atoi_def ParseInt_def ParseUint_def Let_def body_def
             split: sum.splits num_err.splits if_splits)
  then have "\<forall>c\<in>set body. is_digit c" by (rule parseUint_loop_digits)
  with Cons show ?thesis by (auto simp: body_def split: if_splits)
qed

lemma Atoi_Inl_NumError:
  "Atoi s = Inl e \<Longrightarrow> \<exists>k. e = NumError ''Atoi'' s k"
  by (auto simp: Atoi_def split: sum.splits)

subsection \<open>Validation of the flags\<close>

text \<open>
  C10. \<open>validateProxyFlags\<close> returns \<open>nil\<close> exactly when the path, the port, the
  target, the consumer name and the provider name are all non-empty. Otherwise its error
  names the first empty one in the order path, port, target, name, provider-name. The
  command runs this check first: when it fails, \<open>RunE\<close> returns that error and the
  world (documents, child process, log of effects) is as it was.
\<close>

theorem validateProxyFlags_guards_RunE:
  "(validateProxyFlags path port target name providerName = None
      \<longleftrightarrow> path \<noteq> [] \<and> port \<noteq> [] \<and> target \<noteq> [] \<and> name \<noteq> [] \<and> providerName \<noteq> [])
   \<and> (path = [] \<longrightarrow> validateProxyFlags path port target name providerName
          = Some (ErrorString ''No --path was provided. This is a required flag.''))
   \<and> (path \<noteq> [] \<and> port = [] \<longrightarrow> validateProxyFlags path port target name providerName
          = Some (ErrorString ''No --port was provided. This is a required flag.''))
   \<and> (path \<noteq> [] \<and> port \<noteq> [] \<and> target = [] \<longrightarrow>
        validateProxyFlags path port target name providerName
          = Some (ErrorString ''No --target was provided. This is a required flag.''))
   \<and> (path \<noteq> [] \<and> port \<noteq> [] \<and> target \<noteq> [] \<and> name = [] \<longrightarrow>
        validateProxyFlags path port target name providerName
          = Some (ErrorString ''No --name was provided. This is a required flag.''))
   \<and> (path \<noteq> [] \<and> port \<noteq> [] \<and> target \<noteq> [] \<and> name \<noteq> [] \<and> providerName = [] \<longrightarrow>
        validateProxyFlags path port target name providerName
          = Some (ErrorString ''No --provider-name was provided. This is a required flag.''))
   \<and> (validateProxyFlags (proxy_path fl) (proxy_port fl) (proxy_target fl) (proxy_name fl)
          (proxy_provider_name fl) = Some err \<longrightarrow>
        RunE fl npmPkgRoot startFailure sched w = (Return (Some err), w))"
  by (simp add: validateProxyFlags_def RunE_def Let_def)

text \<open>A session without a port and without a provider name: the port is reported.\<close>

theorem validateProxyFlags_guards_RunE_witness:
  "validateProxyFlags ''pact.json'' [] ''http://localhost:3000'' ''web'' []
     = Some (ErrorString ''No --port was provided. This is a required flag.'')
   \<and> validateProxyFlags ''pact.json'' ''8080'' ''http://localhost:3000'' ''web'' ''api'' = None
   \<and> RunE (sample_flags\<lparr>proxy_port := []\<rparr>) (Inr ''/r'') None [Interrupt, ChildExit None] captured_world
     = (Return (Some (ErrorString ''No --port was provided. This is a required flag.'')), captured_world)"
  using validateProxyFlags_guards_RunE [where path = "''pact.json''" and port = "[]"
          and target = "''http://localhost:3000''" and name = "''web''" and providerName = "[]"
          and fl = "sample_flags\<lparr>proxy_port := []\<rparr>"
          and err = "ErrorString ''No --port was provided. This is a required flag.''"
          and npmPkgRoot = "Inr ''/r''" and startFailure = None
          and sched = "[Interrupt, ChildExit None]" and w = captured_world]
        validateProxyFlags_guards_RunE [where path = "''pact.json''" and port = "''8080''"
          and target = "''http://localhost:3000''" and name = "''web''" and providerName = "''api''"]
  by (simp add: sample_flags_def validateProxyFlags_def)

subsection \<open>Generating the configuration\<close>

text \<open>
  The port \<open>-1\<close> is no positive integer, yet \<open>strconv.Atoi\<close> accepts it:
  \<open>setupMbConfig\<close> succeeds and writes a configuration with the port \<open>-1\<close>.
\<close>

theorem setupMbConfig_nonpositive_port_counterexample:
  "\<not> (\<exists>n. 0 < n \<and> Atoi ''-1'' = Inr n)
   \<and> fst (setupMbConfig ''-1'' ''http://localhost:3000'' ''/r/config.ejs'' fresh_world) = None
   \<and> files fresh_world ''/r/config.ejs'' = None
   \<and> files (snd (setupMbConfig ''-1'' ''http://localhost:3000'' ''/r/config.ejs'' fresh_world))
        ''/r/config.ejs''
      = Some (JObject [(''port'', JInt (- 1)), (''name'', JString ''signet-proxy''),
                       (''protocol'', JString ''http''),
                       (''stubs'', JArray [JObject [(''responses'', JArray [JObject
                          [(''proxy'', JObject [(''to'', JString ''http://localhost:3000''),
                                                (''mode'', JString ''proxyOnce'')])]])]])])"
  by (simp add: setupMbConfig_def atoi_defs json_Marshal_def proxyConfig_of_def
        ProxyConfig_json_def MbStub_json_def MbResponse_json_def MbProxy_json_def
        osWriteFile_def emit_def fresh_world_def coerceUTF8_samples)

text \<open>
  C2, as the code has it. For every port string that \<open>strconv.Atoi\<close> rejects,
  \<open>setupMbConfig\<close> fails with the error of the conversion, a
  \<open>*strconv.NumError\<close> for that string, and the world is as it was: no file is written.
  The empty string, a string with a byte after the first that is no decimal digit, and a
  string whose first byte is neither a digit nor a sign are all rejected. Whenever the
  function has written a file or caused any effect, the port has parsed.
\<close>

theorem setupMbConfig_rejected_port:
  "(Atoi port = Inl err \<longrightarrow>
      setupMbConfig port target configPath w = (Some err, w)
      \<and> (\<exists>k. err = NumError ''Atoi'' port k))
   \<and> (port = [] \<or> (\<exists>c\<in>set (tl port). \<not> is_digit c)
        \<or> \<not> (is_digit (hd port) \<or> hd port = CHR ''+'' \<or> hd port = CHR ''-'')
      \<longrightarrow> (\<exists>k. setupMbConfig port target configPath w = (Some (NumError ''Atoi'' port k), w)))
   \<and> (trace (snd (setupMbConfig port target configPath w)) \<noteq> trace w
        \<or> files (snd (setupMbConfig port target configPath w)) \<noteq> files w
      \<longrightarrow> (\<exists>n. Atoi port = Inr n))"
proof (intro conjI impI)
  assume "Atoi port = Inl err"
  then show "setupMbConfig port target configPath w = (Some err, w)"
    by (simp add: setupMbConfig_def)
next
  assume "Atoi port = Inl err"
  then show "\<exists>k. err = NumError ''Atoi'' port k" by (rule Atoi_Inl_NumError)
next
  assume bad: "port = [] \<or> (\<exists>c\<in>set (tl port). \<not> is_digit c)
        \<or> \<not> (is_digit (hd port) \<or> hd port = CHR ''+'' \<or> hd port = CHR ''-'')"
  have "\<exists>e. Atoi port = Inl e"
  proof (cases "Atoi port")
    case (Inr i)
    from Atoi_Inr_digits [OF Inr] bad show ?thesis by blast
  qed simp
  then obtain e where e: "Atoi port = Inl e" ..
  with Atoi_Inl_NumError obtain k where "e = NumError ''Atoi'' port k" by blast
  with e show "\<exists>k. setupMbConfig port target configPath w = (Some (NumError ''Atoi'' port k), w)"
    by (auto simp: setupMbConfig_def)
next
  assume "trace (snd (setupMbConfig port target configPath w)) \<noteq> trace w
        \<or> files (snd (setupMbConfig port target configPath w)) \<noteq> files w"
  then show "\<exists>n. Atoi port = Inr n"
    by (cases "Atoi port") (auto simp: setupMbConfig_def)
qed

text \<open>The port \<open>80a\<close> is rejected and nothing is written; the port \<open>8080\<close> parses.\<close>

theorem setupMbConfig_rejected_port_witness:
  "setupMbConfig ''80a'' ''http://localhost:3000'' ''/r/config.ejs'' fresh_world
     = (Some (NumError ''Atoi'' ''80a'' ErrSyntax), fresh_world)
   \<and> Atoi ''8080'' = Inr 8080
   \<and> files (snd (setupMbConfig ''8080'' ''http://localhost:3000'' ''/r/config.ejs'' fresh_world))
       \<noteq> files fresh_world"
proof -
  have a: "Atoi ''80a'' = Inl (NumError ''Atoi'' ''80a'' ErrSyntax)"
    by (simp add: atoi_defs)
  have b: "Atoi ''8080'' = Inr 8080"
    by (simp add: atoi_defs)
  have c: "files (snd (setupMbConfig ''8080'' ''http://localhost:3000'' ''/r/config.ejs'' fresh_world))
             ''/r/config.ejs'' \<noteq> files fresh_world ''/r/config.ejs''"
    by (simp add: setupMbConfig_def b json_Marshal_def osWriteFile_def emit_def fresh_world_def)
  then have d: "files (snd (setupMbConfig ''8080'' ''http://localhost:3000'' ''/r/config.ejs'' fresh_world))
       \<noteq> files fresh_world" by metis
  from setupMbConfig_rejected_port [of "''80a''" "NumError ''Atoi'' ''80a'' ErrSyntax"
         "''http://localhost:3000''" "''/r/config.ejs''" fresh_world] a
       setupMbConfig_rejected_port [of "''8080''" _ "''http://localhost:3000''" "''/r/config.ejs''" fresh_world] b d
  show ?thesis by simp
qed

subsection \<open>What a pass and the supervisor leave alone\<close>

lemmas config_json_defs = proxyConfig_of_def ProxyConfig_json_def MbStub_json_def
  MbResponse_json_def MbProxy_json_def json_Marshal_def

lemmas pass_defs = CreatePact_def readInteractions_def synthesize_def writeContract_def
  osWriteFile_def emit_def Let_def

lemma CreatePact_frame:
  "child (snd (CreatePact d p n pn w)) = child w"
  "store (snd (CreatePact d p n pn w)) = store w"
  "write_fault (snd (CreatePact d p n pn w)) = write_fault w"
  "stamp (snd (CreatePact d p n pn w)) = stamp w"
  by (auto simp: pass_defs split: dir_state.splits option.splits)

lemma CreatePact_trace:
  "\<exists>evs. trace (snd (CreatePact d p n pn w)) = trace w @ evs"
  by (auto simp: pass_defs split: dir_state.splits option.splits)

lemma CreatePact_result_cong:
  "store w' d = store w d \<Longrightarrow> write_fault w' p = write_fault w p
   \<Longrightarrow> fst (CreatePact d p n pn w') = fst (CreatePact d p n pn w)"
  by (auto simp: pass_defs split: dir_state.splits option.splits)

lemma on_interrupt_frame:
  "child (snd (on_interrupt d p n pn w)) = child w"
  "store (snd (on_interrupt d p n pn w)) = store w"
  "write_fault (snd (on_interrupt d p n pn w)) = write_fault w"
  "stamp (snd (on_interrupt d p n pn w)) = stamp w"
proof -
  let ?w1 = "Println (nl @ nl @ ''generating consumer contract...'') w"
  obtain err ok w' where cp: "CreatePact d p n pn ?w1 = ((err, ok), w')"
    by (metis surj_pair)
  from CreatePact_frame [of d p n pn ?w1] cp
  have f: "child w' = child w" "store w' = store w" "write_fault w' = write_fault w"
    "stamp w' = stamp w"
    by (simp_all add: Println_def emit_def)
  from cp f show "child (snd (on_interrupt d p n pn w)) = child w"
    by (cases err) (simp_all add: on_interrupt_def log_Fatal_def Println_def emit_def)
  from cp f show "store (snd (on_interrupt d p n pn w)) = store w"
    by (cases err) (simp_all add: on_interrupt_def log_Fatal_def Println_def emit_def)
  from cp f show "write_fault (snd (on_interrupt d p n pn w)) = write_fault w"
    by (cases err) (simp_all add: on_interrupt_def log_Fatal_def Println_def emit_def)
  from cp f show "stamp (snd (on_interrupt d p n pn w)) = stamp w"
    by (cases err) (simp_all add: on_interrupt_def log_Fatal_def Println_def emit_def)
qed

lemma on_interrupt_trace:
  "\<exists>evs. trace (snd (on_interrupt d p n pn w)) = trace w @ evs"
proof -
  let ?w1 = "Println (nl @ nl @ ''generating consumer contract...'') w"
  obtain err ok w' where cp: "CreatePact d p n pn ?w1 = ((err, ok), w')"
    by (metis surj_pair)
  from CreatePact_trace [of d p n pn ?w1] cp
  obtain evs where "trace w' = trace w @ EvPrintln (nl @ nl @ ''generating consumer contract...'') # evs"
    by (auto simp: Println_def emit_def)
  with cp show ?thesis
    by (cases err) (simp_all add: on_interrupt_def log_Fatal_def Println_def emit_def)
qed

lemma on_interrupt_outcome:
  "fst (on_interrupt d p n pn w) = None \<or> fst (on_interrupt d p n pn w) = Some (OsExit 1)"
  by (auto simp: on_interrupt_def log_Fatal_def split: prod.splits option.splits)

lemma on_interrupt_fatal:
  assumes "fst (fst (CreatePact d p n pn w)) = Some err"
  shows "fst (on_interrupt d p n pn w) = Some (OsExit 1)"
    and "last (trace (snd (on_interrupt d p n pn w))) = EvLogFatal err"
proof -
  let ?w1 = "Println (nl @ nl @ ''generating consumer contract...'') w"
  have "fst (CreatePact d p n pn ?w1) = fst (CreatePact d p n pn w)"
    by (rule CreatePact_result_cong) (simp_all add: Println_def emit_def)
  with assms obtain ok w' where cp: "CreatePact d p n pn ?w1 = ((Some err, ok), w')"
    by (metis prod.collapse)
  then show "fst (on_interrupt d p n pn w) = Some (OsExit 1)"
    by (simp add: on_interrupt_def log_Fatal_def)
  from cp show "last (trace (snd (on_interrupt d p n pn w))) = EvLogFatal err"
    by (simp add: on_interrupt_def log_Fatal_def emit_def)
qed

lemma capture_frame:
  "child (capture dir e w) = child w"
  "write_fault (capture dir e w) = write_fault w"
  "trace (capture dir e w) = trace w"
  by (simp_all add: capture_def)

lemma supervise_no_exit:
  "\<forall>e\<in>set es. \<not> is_child_exit e \<Longrightarrow>
     child (snd (supervise d p n pn w es)) = child w
     \<and> (fst (supervise d p n pn w es) = Blocked \<or> fst (supervise d p n pn w es) = OsExit 1)"
proof (induction es arbitrary: w)
  case Nil
  then show ?case by simp
next
  case (Cons e es)
  then have rest: "\<forall>e\<in>set es. \<not> is_child_exit e" by simp
  show ?case
  proof (cases e)
    case Interrupt
    obtain out w' where oi: "on_interrupt d p n pn w = (out, w')" by (metis surj_pair)
    with on_interrupt_frame(1) [of d p n pn w] have c: "child w' = child w" by simp
    from oi on_interrupt_outcome [of d p n pn w] have "out = None \<or> out = Some (OsExit 1)"
      by simp
    then show ?thesis
    proof
      assume "out = None"
      with Interrupt oi Cons.IH [OF rest, of w'] c show ?thesis by simp
    next
      assume "out = Some (OsExit 1)"
      with Interrupt oi c show ?thesis by simp
    qed
  next
    case (Capture dir en)
    with Cons.IH [OF rest, of "capture dir en w"] show ?thesis
      by (simp add: capture_frame)
  next
    case (Tick j)
    with Cons.IH [OF rest, of "w\<lparr>stamp := j\<rparr>"] show ?thesis by simp
  next
    case (ChildExit failure)
    with Cons.prems show ?thesis by (simp add: is_child_exit_def)
  qed
qed

lemma supervise_append:
  "fst (supervise d p n pn w es) = Blocked \<Longrightarrow>
     supervise d p n pn w (es @ es') = supervise d p n pn (snd (supervise d p n pn w es)) es'"
proof (induction es arbitrary: w)
  case Nil
  then show ?case by simp
next
  case (Cons e es)
  show ?case
  proof (cases e)
    case Interrupt
    obtain out w' where oi: "on_interrupt d p n pn w = (out, w')" by (metis surj_pair)
    show ?thesis
    proof (cases out)
      case None
      with Interrupt oi Cons.prems Cons.IH [of w'] show ?thesis by simp
    next
      case (Some a)
      with Interrupt oi Cons.prems on_interrupt_outcome [of d p n pn w] show ?thesis by simp
    qed
  next
    case (Capture dir en)
    with Cons.prems Cons.IH [of "capture dir en w"] show ?thesis by simp
  next
    case (Tick j)
    with Cons.prems Cons.IH [of "w\<lparr>stamp := j\<rparr>"] show ?thesis by simp
  next
    case (ChildExit failure)
    with Cons.prems show ?thesis by (simp split: option.splits)
  qed
qed

lemma supervise_trace:
  "\<exists>evs. trace (snd (supervise d p n pn w es)) = trace w @ evs"
proof (induction es arbitrary: w)
  case Nil
  then show ?case by simp
next
  case (Cons e es)
  show ?case
  proof (cases e)
    case Interrupt
    obtain out w' where oi: "on_interrupt d p n pn w = (out, w')" by (metis surj_pair)
    with on_interrupt_trace [of d p n pn w] obtain evs where t: "trace w' = trace w @ evs"
      by auto
    show ?thesis
    proof (cases out)
      case None
      from Cons.IH [of w'] obtain evs' where
        "trace (snd (supervise d p n pn w' es)) = trace w' @ evs'" ..
      with None Interrupt oi t show ?thesis by simp
    next
      case (Some a)
      with Interrupt oi t show ?thesis by simp
    qed
  next
    case (Capture dir en)
    with Cons.IH [of "capture dir en w"] show ?thesis by (simp add: capture_frame)
  next
    case (Tick j)
    with Cons.IH [of "w\<lparr>stamp := j\<rparr>"] show ?thesis by simp
  next
    case (ChildExit failure)
    then show ?thesis by (simp add: emit_def split: option.splits)
  qed
qed

subsection \<open>The shape of the configuration\<close>

text \<open>
  C3. For every port string that parses and every target, the \<open>ProxyConfig\<close> that
  \<open>setupMbConfig\<close> builds has exactly one stub with exactly one response, whose proxy
  mode is \<open>proxyOnce\<close> and whose proxy target is the given target; its protocol is
  \<open>http\<close> and its port is the parsed integer. Its serialization is the document
  \<open>{port, name, protocol, stubs:[{responses:[{proxy:{to, mode}}]}]}\<close>, in which the
  target stands as \<open>encoding/json\<close> writes it: as it is when it is valid UTF-8, and
  with U+FFFD for each byte that decodes to nothing otherwise. Exactly this document is
  what \<open>setupMbConfig\<close> writes to the config path: the result of the function is the
  result of that write, and when the write goes through the file at the config path
  holds the document and the write is the only effect.
\<close>

theorem setupMbConfig_shape:
  "Atoi port = Inr portInt \<longrightarrow>
     (\<exists>s r. Stubs (proxyConfig_of portInt target) = [s] \<and> Responses s = [r]
         \<and> Mode (Proxy r) = ''proxyOnce'' \<and> To (Proxy r) = target)
     \<and> Protocol (proxyConfig_of portInt target) = ''http''
     \<and> Port (proxyConfig_of portInt target) = portInt
     \<and> json_Marshal (proxyConfig_of portInt target)
         = Inr (JObject [(''port'', JInt portInt), (''name'', JString ''signet-proxy''),
                  (''protocol'', JString ''http''),
                  (''stubs'', JArray [JObject [(''responses'', JArray [JObject
                     [(''proxy'', JObject [(''to'', JString (coerceUTF8 target)),
                                           (''mode'', JString ''proxyOnce'')])]])]])])
     \<and> (ValidString target \<longrightarrow>
          json_Marshal (proxyConfig_of portInt target)
           = Inr (JObject [(''port'', JInt portInt), (''name'', JString ''signet-proxy''),
                  (''protocol'', JString ''http''),
                  (''stubs'', JArray [JObject [(''responses'', JArray [JObject
                     [(''proxy'', JObject [(''to'', JString target),
                                           (''mode'', JString ''proxyOnce'')])]])]])]))
     \<and> setupMbConfig port target configPath w
         = (case osWriteFile configPath (ProxyConfig_json (proxyConfig_of portInt target)) w of
              (Some msg, w') \<Rightarrow>
                (Some (ErrorString (''failed to write mountebank config file: '' @ msg)), w')
            | (None, w') \<Rightarrow> (None, w'))
     \<and> (write_fault w configPath = None \<longrightarrow>
          fst (setupMbConfig port target configPath w) = None
          \<and> files (snd (setupMbConfig port target configPath w)) configPath
              = Some (ProxyConfig_json (proxyConfig_of portInt target))
          \<and> new_events w (snd (setupMbConfig port target configPath w))
              = [EvWriteFile configPath (ProxyConfig_json (proxyConfig_of portInt target))])"
proof
  assume a: "Atoi port = Inr portInt"
  have shape: "\<exists>s r. Stubs (proxyConfig_of portInt target) = [s] \<and> Responses s = [r]
         \<and> Mode (Proxy r) = ''proxyOnce'' \<and> To (Proxy r) = target"
    by (simp add: proxyConfig_of_def)
  have fields: "Protocol (proxyConfig_of portInt target) = ''http''"
    "Port (proxyConfig_of portInt target) = portInt"
    by (simp_all add: proxyConfig_of_def)
  have doc: "json_Marshal (proxyConfig_of portInt target)
         = Inr (JObject [(''port'', JInt portInt), (''name'', JString ''signet-proxy''),
                  (''protocol'', JString ''http''),
                  (''stubs'', JArray [JObject [(''responses'', JArray [JObject
                     [(''proxy'', JObject [(''to'', JString (coerceUTF8 target)),
                                           (''mode'', JString ''proxyOnce'')])]])]])])"
    by (simp add: config_json_defs coerceUTF8_samples)
  have valid: "ValidString target \<longrightarrow>
          json_Marshal (proxyConfig_of portInt target)
           = Inr (JObject [(''port'', JInt portInt), (''name'', JString ''signet-proxy''),
                  (''protocol'', JString ''http''),
                  (''stubs'', JArray [JObject [(''responses'', JArray [JObject
                     [(''proxy'', JObject [(''to'', JString target),
                                           (''mode'', JString ''proxyOnce'')])]])]])])"
    by (simp add: doc ValidString_coerceUTF8)
  have call: "setupMbConfig port target configPath w
         = (case osWriteFile configPath (ProxyConfig_json (proxyConfig_of portInt target)) w of
              (Some msg, w') \<Rightarrow>
                (Some (ErrorString (''failed to write mountebank config file: '' @ msg)), w')
            | (None, w') \<Rightarrow> (None, w'))"
    using a by (simp add: setupMbConfig_def json_Marshal_def)
  have written: "write_fault w configPath = None \<longrightarrow>
          fst (setupMbConfig port target configPath w) = None
          \<and> files (snd (setupMbConfig port target configPath w)) configPath
              = Some (ProxyConfig_json (proxyConfig_of portInt target))
          \<and> new_events w (snd (setupMbConfig port target configPath w))
              = [EvWriteFile configPath (ProxyConfig_json (proxyConfig_of portInt target))]"
    by (simp add: call osWriteFile_def emit_def new_events_def)
  from shape fields doc valid call written
  show "(\<exists>s r. Stubs (proxyConfig_of portInt target) = [s] \<and> Responses s = [r]
         \<and> Mode (Proxy r) = ''proxyOnce'' \<and> To (Proxy r) = target)
     \<and> Protocol (proxyConfig_of portInt target) = ''http''
     \<and> Port (proxyConfig_of portInt target) = portInt
     \<and> json_Marshal (proxyConfig_of portInt target)
         = Inr (JObject [(''port'', JInt portInt), (''name'', JString ''signet-proxy''),
                  (''protocol'', JString ''http''),
                  (''stubs'', JArray [JObject [(''responses'', JArray [JObject
                     [(''proxy'', JObject [(''to'', JString (coerceUTF8 target)),
                                           (''mode'', JString ''proxyOnce'')])]])]])])
     \<and> (ValidString target \<longrightarrow>
          json_Marshal (proxyConfig_of portInt target)
           = Inr (JObject [(''port'', JInt portInt), (''name'', JString ''signet-proxy''),
                  (''protocol'', JString ''http''),
                  (''stubs'', JArray [JObject [(''responses'', JArray [JObject
                     [(''proxy'', JObject [(''to'', JString target),
                                           (''mode'', JString ''proxyOnce'')])]])]])]))
     \<and> setupMbConfig port target configPath w
         = (case osWriteFile configPath (ProxyConfig_json (proxyConfig_of portInt target)) w of
              (Some msg, w') \<Rightarrow>
                (Some (ErrorString (''failed to write mountebank config file: '' @ msg)), w')
            | (None, w') \<Rightarrow> (None, w'))
     \<and> (write_fault w configPath = None \<longrightarrow>
          fst (setupMbConfig port target configPath w) = None
          \<and> files (snd (setupMbConfig port target configPath w)) configPath
              = Some (ProxyConfig_json (proxyConfig_of portInt target))
          \<and> new_events w (snd (setupMbConfig port target configPath w))
              = [EvWriteFile configPath (ProxyConfig_json (proxyConfig_of portInt target))])"
    by blast
qed

text \<open>
  The port \<open>8080\<close> and a target of ASCII bytes in a world where every write goes
  through; and the document for a target that is the single byte \<open>0xFF\<close>.
\<close>

theorem setupMbConfig_shape_witness:
  "Atoi ''8080'' = Inr 8080
   \<and> ValidString ''http://localhost:3000''
   \<and> write_fault fresh_world ''/r/config.ejs'' = None
   \<and> fst (setupMbConfig ''8080'' ''http://localhost:3000'' ''/r/config.ejs'' fresh_world) = None
   \<and> files (snd (setupMbConfig ''8080'' ''http://localhost:3000'' ''/r/config.ejs'' fresh_world))
        ''/r/config.ejs''
      = Some (JObject [(''port'', JInt 8080), (''name'', JString ''signet-proxy''),
                  (''protocol'', JString ''http''),
                  (''stubs'', JArray [JObject [(''responses'', JArray [JObject
                     [(''proxy'', JObject [(''to'', JString ''http://localhost:3000''),
                                           (''mode'', JString ''proxyOnce'')])]])]])])
   \<and> json_Marshal (proxyConfig_of 8080 [CHR 0xFF])
      = Inr (JObject [(''port'', JInt 8080), (''name'', JString ''signet-proxy''),
                  (''protocol'', JString ''http''),
                  (''stubs'', JArray [JObject [(''responses'', JArray [JObject
                     [(''proxy'', JObject [(''to'', JString [CHR 0xEF, CHR 0xBF, CHR 0xBD]),
                                           (''mode'', JString ''proxyOnce'')])]])]])])"
proof -
  have a: "Atoi ''8080'' = Inr 8080" by (simp add: atoi_defs)
  have b: "write_fault fresh_world ''/r/config.ejs'' = None" by (simp add: fresh_world_def)
  have v: "ValidString ''http://localhost:3000''"
    by (simp add: DecodeRuneInString_ascii)
  have f: "coerceUTF8 [CHR 0xFF] = [CHR 0xEF, CHR 0xBF, CHR 0xBD]"
    by (simp add: coerceUTF8.simps(2) DecodeRuneInString_def utf8_first_def replacement_def)
  note t = setupMbConfig_shape [of "''8080''" 8080 "''http://localhost:3000''"
                 "''/r/config.ejs''" fresh_world, THEN mp, OF a]
  note doc = t [THEN conjunct2, THEN conjunct2, THEN conjunct2, THEN conjunct2,
                THEN conjunct1, THEN mp, OF v]
  note written = t [THEN conjunct2, THEN conjunct2, THEN conjunct2, THEN conjunct2,
                    THEN conjunct2, THEN conjunct2, THEN mp, OF b]
  note t' = setupMbConfig_shape [of "''8080''" 8080 "[CHR 0xFF]" "''/r/config.ejs''"
                 fresh_world, THEN mp, OF a]
  note doc' = t' [THEN conjunct2, THEN conjunct2, THEN conjunct2, THEN conjunct1]
  have content: "files (snd (setupMbConfig ''8080'' ''http://localhost:3000'' ''/r/config.ejs''
                fresh_world)) ''/r/config.ejs''
      = Some (JObject [(''port'', JInt 8080), (''name'', JString ''signet-proxy''),
                  (''protocol'', JString ''http''),
                  (''stubs'', JArray [JObject [(''responses'', JArray [JObject
                     [(''proxy'', JObject [(''to'', JString ''http://localhost:3000''),
                                           (''mode'', JString ''proxyOnce'')])]])]])])"
    using written doc by (simp add: json_Marshal_def)
  from a b v written content doc' f show ?thesis by simp
qed

subsection \<open>A failing pass\<close>

text \<open>
  C5. If the pass that an interrupt starts returns an error, the listener calls
  \<open>log.Fatal\<close>: the command ends with exit status 1 whatever comes next, the error is
  the last effect logged, and the child process is in the state it was in (it has not
  ended).
\<close>

theorem synthesis_failure_is_fatal:
  "fst (fst (CreatePact stubsDir path name providerName w)) = Some err \<longrightarrow>
     fst (on_interrupt stubsDir path name providerName w) = Some (OsExit 1)
     \<and> fst (supervise stubsDir path name providerName w (Interrupt # es)) = OsExit 1
     \<and> child (snd (supervise stubsDir path name providerName w (Interrupt # es))) = child w
     \<and> last (trace (snd (supervise stubsDir path name providerName w (Interrupt # es))))
         = EvLogFatal err"
proof
  assume a: "fst (fst (CreatePact stubsDir path name providerName w)) = Some err"
  obtain w' where oi: "on_interrupt stubsDir path name providerName w = (Some (OsExit 1), w')"
    using on_interrupt_fatal(1) [OF a] by (metis prod.collapse)
  from on_interrupt_fatal(2) [OF a] oi have l: "last (trace w') = EvLogFatal err" by simp
  from on_interrupt_frame(1) [of stubsDir path name providerName w] oi
  have c: "child w' = child w" by simp
  from oi l c
  show "fst (on_interrupt stubsDir path name providerName w) = Some (OsExit 1)
     \<and> fst (supervise stubsDir path name providerName w (Interrupt # es)) = OsExit 1
     \<and> child (snd (supervise stubsDir path name providerName w (Interrupt # es))) = child w
     \<and> last (trace (snd (supervise stubsDir path name providerName w (Interrupt # es))))
         = EvLogFatal err"
    by simp
qed

text \<open>Unfolding the sample sessions.\<close>

lemmas sample_defs = fresh_world_def captured_world_def unwritable_world_def sample_stubsDir_def
  sample_A_def sample_B_def sample_A2_def sample_C_def record_key_def

text \<open>A running child, captured records, and a contract path that cannot be written.\<close>

theorem synthesis_failure_is_fatal_witness:
  "fst (fst (CreatePact sample_stubsDir ''pact.json'' ''web'' ''api''
               (unwritable_world\<lparr>child := Running [''npx'']\<rparr>)))
     = Some (ErrorString ''open pact.json: permission denied'')
   \<and> fst (supervise sample_stubsDir ''pact.json'' ''web'' ''api''
            (unwritable_world\<lparr>child := Running [''npx'']\<rparr>) [Interrupt, ChildExit None])
     = OsExit 1
   \<and> child (snd (supervise sample_stubsDir ''pact.json'' ''web'' ''api''
            (unwritable_world\<lparr>child := Running [''npx'']\<rparr>) [Interrupt, ChildExit None]))
     = Running [''npx'']"
proof -
  have a: "fst (fst (CreatePact sample_stubsDir ''pact.json'' ''web'' ''api''
               (unwritable_world\<lparr>child := Running [''npx'']\<rparr>)))
     = Some (ErrorString ''open pact.json: permission denied'')"
    by (simp add: pass_defs sample_defs)
  from synthesis_failure_is_fatal [of sample_stubsDir "''pact.json''" "''web''" "''api''"
         "unwritable_world\<lparr>child := Running [''npx'']\<rparr>"
         "ErrorString ''open pact.json: permission denied''" "[ChildExit None]"] a
  show ?thesis by simp
qed

subsection \<open>An empty capture\<close>

text \<open>
  C7. When the capture directory is missing or empty, the pass returns no error and the
  flag \<open>false\<close> and changes nothing (no contract is written); the listener prints
  the line that no contract was generated, the documents are as they were, and the
  command goes on with what comes next.
\<close>

theorem empty_capture_is_no_error:
  "store w stubsDir = Missing \<or> store w stubsDir = Entries [] \<longrightarrow>
     CreatePact stubsDir path name providerName w = ((None, False), w)
     \<and> on_interrupt stubsDir path name providerName w
         = (None,
            Println (nl @ ''Info - No contract was generated because Signet proxy did not record any interactions'')
              (Println (nl @ nl @ ''generating consumer contract...'') w))
     \<and> files (snd (on_interrupt stubsDir path name providerName w)) = files w
     \<and> supervise stubsDir path name providerName w (Interrupt # es)
         = supervise stubsDir path name providerName
             (snd (on_interrupt stubsDir path name providerName w)) es"
proof
  assume a: "store w stubsDir = Missing \<or> store w stubsDir = Entries []"
  have cp: "\<And>v. store v stubsDir = store w stubsDir \<Longrightarrow>
              CreatePact stubsDir path name providerName v = ((None, False), v)"
    using a by (auto simp: pass_defs)
  have oi: "on_interrupt stubsDir path name providerName w
         = (None,
            Println (nl @ ''Info - No contract was generated because Signet proxy did not record any interactions'')
              (Println (nl @ nl @ ''generating consumer contract...'') w))"
  proof -
    have "store (Println (nl @ nl @ ''generating consumer contract...'') w) stubsDir
            = store w stubsDir"
      by (simp add: Println_def emit_def)
    from cp [OF this] show ?thesis by (simp add: on_interrupt_def)
  qed
  from cp [of w] oi
  show "CreatePact stubsDir path name providerName w = ((None, False), w)
     \<and> on_interrupt stubsDir path name providerName w
         = (None,
            Println (nl @ ''Info - No contract was generated because Signet proxy did not record any interactions'')
              (Println (nl @ nl @ ''generating consumer contract...'') w))
     \<and> files (snd (on_interrupt stubsDir path name providerName w)) = files w
     \<and> supervise stubsDir path name providerName w (Interrupt # es)
         = supervise stubsDir path name providerName
             (snd (on_interrupt stubsDir path name providerName w)) es"
    by (simp add: Println_def emit_def)
qed

text \<open>An interrupt in a world without captures, then the child ends gracefully.\<close>

theorem empty_capture_is_no_error_witness:
  "store fresh_world sample_stubsDir = Missing
   \<and> CreatePact sample_stubsDir ''pact.json'' ''web'' ''api'' fresh_world
       = ((None, False), fresh_world)
   \<and> files (snd (on_interrupt sample_stubsDir ''pact.json'' ''web'' ''api'' fresh_world))
        ''pact.json'' = None
   \<and> fst (supervise sample_stubsDir ''pact.json'' ''web'' ''api'' fresh_world
            [Interrupt, ChildExit None]) = Return None"
proof -
  have a: "store fresh_world sample_stubsDir = Missing" by (simp add: fresh_world_def)
  have f: "files fresh_world ''pact.json'' = None" by (simp add: fresh_world_def)
  from empty_capture_is_no_error [of fresh_world sample_stubsDir "''pact.json''" "''web''"
         "''api''" "[ChildExit None]"] a f
  show ?thesis by (simp add: Println_def emit_def)
qed

subsection \<open>Interrupts and the end of the command\<close>

lemma on_interrupt_None_iff:
  "fst (on_interrupt d p n pn v) = None \<longleftrightarrow> fst (fst (CreatePact d p n pn v)) = None"
proof -
  let ?v1 = "Println (nl @ nl @ ''generating consumer contract...'') v"
  have r: "fst (CreatePact d p n pn ?v1) = fst (CreatePact d p n pn v)"
    by (rule CreatePact_result_cong) (simp_all add: Println_def emit_def)
  obtain err ok v' where cp: "CreatePact d p n pn ?v1 = ((err, ok), v')"
    by (metis surj_pair)
  with r have "fst (fst (CreatePact d p n pn v)) = err" by (metis fst_conv)
  with cp show ?thesis
    by (cases err) (simp_all add: on_interrupt_def log_Fatal_def)
qed

lemma on_interrupt_files:
  "files (snd (on_interrupt d p n pn v)) = files (snd (CreatePact d p n pn v))"
  by (auto simp: on_interrupt_def log_Fatal_def Println_def pass_defs
           split: dir_state.splits option.splits)

lemma supervise_blocked_iff:
  "\<forall>e\<in>set es. \<not> is_child_exit e \<Longrightarrow> store v = store w \<Longrightarrow> write_fault v = write_fault w
   \<Longrightarrow> (fst (supervise d p n pn v es) = Blocked) = passes_succeed d p n pn w es"
proof (induction es arbitrary: v w)
  case Nil
  then show ?case by simp
next
  case (Cons e es)
  then have rest: "\<forall>e\<in>set es. \<not> is_child_exit e" by simp
  show ?case
  proof (cases e)
    case Interrupt
    have same: "fst (CreatePact d p n pn v) = fst (CreatePact d p n pn w)"
      by (rule CreatePact_result_cong) (simp_all add: Cons.prems)
    obtain out v' where oi: "on_interrupt d p n pn v = (out, v')" by (metis surj_pair)
    from oi on_interrupt_frame(2,3) [of d p n pn v]
    have fr: "store v' = store (snd (CreatePact d p n pn w))"
      "write_fault v' = write_fault (snd (CreatePact d p n pn w))"
      by (simp_all add: CreatePact_frame Cons.prems)
    from oi on_interrupt_None_iff [of d p n pn v] same
    have iff: "out = None \<longleftrightarrow> fst (fst (CreatePact d p n pn w)) = None" by simp
    show ?thesis
    proof (cases out)
      case None
      with iff Interrupt oi Cons.IH [OF rest fr] show ?thesis by simp
    next
      case (Some a)
      with oi on_interrupt_outcome [of d p n pn v] have "a = OsExit 1" by simp
      with Some iff Interrupt oi show ?thesis by simp
    qed
  next
    case (Capture dir en)
    have "store (capture dir en v) = store (capture dir en w)"
      "write_fault (capture dir en v) = write_fault (capture dir en w)"
      by (simp_all add: capture_def Cons.prems)
    from Cons.IH [OF rest this] Capture show ?thesis by simp
  next
    case (Tick j)
    have "store (v\<lparr>stamp := j\<rparr>) = store (w\<lparr>stamp := j\<rparr>)"
      "write_fault (v\<lparr>stamp := j\<rparr>) = write_fault (w\<lparr>stamp := j\<rparr>)"
      by (simp_all add: Cons.prems)
    from Cons.IH [OF rest this] Tick show ?thesis by simp
  next
    case (ChildExit failure)
    with Cons.prems show ?thesis by (simp add: is_child_exit_def)
  qed
qed

lemma setupMbConfig_frame:
  "store (snd (setupMbConfig port target cp w)) = store w"
  "write_fault (snd (setupMbConfig port target cp w)) = write_fault w"
  by (auto simp: setupMbConfig_def json_Marshal_def osWriteFile_def emit_def
           split: sum.splits option.splits)

lemma RunE_listening_world:
  assumes "validateProxyFlags (proxy_path fl) (proxy_port fl) (proxy_target fl) (proxy_name fl)
             (proxy_provider_name fl) = None"
    and "fst (setupMbConfig (proxy_port fl) (proxy_target fl) (signetRoot @ ''/config.ejs'') w) = None"
  shows "\<exists>v. store v = store w \<and> write_fault v = write_fault w
           \<and> child v = Running [''npx'', signetRoot @ ''/node_modules/mountebank'',
                                 ''--configfile'', signetRoot @ ''/config.ejs'',
                                 ''--datadir'', signetRoot @ ''/mbdata'',
                                 ''--debug'', ''--nologfile'']
           \<and> (\<forall>sched. RunE fl (Inr signetRoot) None sched w
                  = supervise (signetRoot @ ''/mbdata'' @ ''/'' @ proxy_port fl @ ''/stubs'')
                      (proxy_path fl) (proxy_name fl) (proxy_provider_name fl) v sched)"
proof -
  obtain w1 where s: "setupMbConfig (proxy_port fl) (proxy_target fl) (signetRoot @ ''/config.ejs'') w
                        = (None, w1)"
    using assms(2) by (metis prod.collapse)
  with setupMbConfig_frame [of "proxy_port fl" "proxy_target fl" "signetRoot @ ''/config.ejs''" w]
  have fr: "store w1 = store w" "write_fault w1 = write_fault w" by simp_all
  define args where "args = [''npx'', signetRoot @ ''/node_modules/mountebank'', ''--configfile'',
                             signetRoot @ ''/config.ejs'', ''--datadir'', signetRoot @ ''/mbdata'',
                             ''--debug'', ''--nologfile'']"
  define l1 where "l1 = colorGreen @ ''Listening'' @ colorReset
                          @ '' - Signet proxy is listening on port '' @ proxy_port fl
                          @ '' and will proxy messages for '' @ proxy_target fl"
  define v where "v = emit EvGo (signal_Notify (Println (nl @ ''Hit Ctl + C to stop'')
                        (Println l1 (emit (EvStart args) (w1\<lparr>child := Running args\<rparr>)))))"
  have a: "store v = store w" "write_fault v = write_fault w" "child v = Running args"
    by (simp_all add: v_def fr signal_Notify_def Println_def emit_def)
  have run: "\<forall>sched. RunE fl (Inr signetRoot) None sched w
                  = supervise (signetRoot @ ''/mbdata'' @ ''/'' @ proxy_port fl @ ''/stubs'')
                      (proxy_path fl) (proxy_name fl) (proxy_provider_name fl) v sched"
    using assms(1) s by (simp add: RunE_def Let_def mbCmd_Start_def v_def args_def l1_def)
  from a run show ?thesis unfolding args_def by blast
qed

text \<open>
  C4, as the code has it. An interrupt that the listener receives runs a pass: the
  documents after the listener's turn are those after \<open>utils.CreatePact\<close>, and the
  loop goes on exactly when the pass returned no error. In a run of the command with
  valid flags, a written configuration and a started engine, whatever the listener
  receives while the child has not ended (interrupts, between captures and the passing of
  time) leaves the child running: no interrupt stops the engine. The command is still
  blocked in \<open>mbCmd.Wait\<close> exactly when no pass has returned an error; it has ended
  with exit status 1 otherwise. When no pass has returned an error, the command returns
  exactly when the child ends: with \<open>nil\<close> after a graceful exit, with the error of
  the exit otherwise.
\<close>

theorem interrupts_leave_child_running:
  "files (snd (on_interrupt stubsDir path name providerName v))
     = files (snd (CreatePact stubsDir path name providerName v))
   \<and> (fst (on_interrupt stubsDir path name providerName v) = None
        \<longleftrightarrow> fst (fst (CreatePact stubsDir path name providerName v)) = None)
   \<and> (validateProxyFlags (proxy_path fl) (proxy_port fl) (proxy_target fl) (proxy_name fl)
          (proxy_provider_name fl) = None
        \<and> fst (setupMbConfig (proxy_port fl) (proxy_target fl) (signetRoot @ ''/config.ejs'') w)
            = None
        \<and> (\<forall>e\<in>set es. \<not> is_child_exit e)
      \<longrightarrow>
        child (snd (RunE fl (Inr signetRoot) None es w))
          = Running [''npx'', signetRoot @ ''/node_modules/mountebank'',
                     ''--configfile'', signetRoot @ ''/config.ejs'',
                     ''--datadir'', signetRoot @ ''/mbdata'', ''--debug'', ''--nologfile'']
        \<and> (fst (RunE fl (Inr signetRoot) None es w) = Blocked
             \<longleftrightarrow> passes_succeed (signetRoot @ ''/mbdata'' @ ''/'' @ proxy_port fl @ ''/stubs'')
                   (proxy_path fl) (proxy_name fl) (proxy_provider_name fl) w es)
        \<and> (\<not> passes_succeed (signetRoot @ ''/mbdata'' @ ''/'' @ proxy_port fl @ ''/stubs'')
                   (proxy_path fl) (proxy_name fl) (proxy_provider_name fl) w es
             \<longrightarrow> fst (RunE fl (Inr signetRoot) None es w) = OsExit 1)
        \<and> (passes_succeed (signetRoot @ ''/mbdata'' @ ''/'' @ proxy_port fl @ ''/stubs'')
                   (proxy_path fl) (proxy_name fl) (proxy_provider_name fl) w es
             \<longrightarrow> fst (RunE fl (Inr signetRoot) None (es @ ChildExit failure # es') w)
                   = Return (case failure of
                               None \<Rightarrow> None
                             | Some msg \<Rightarrow>
                                 Some (ErrorString (''mountebank exited early: '' @ msg)))
                 \<and> child (snd (RunE fl (Inr signetRoot) None (es @ ChildExit failure # es') w))
                     = Exited))"
proof (intro conjI impI)
  show "files (snd (on_interrupt stubsDir path name providerName v))
     = files (snd (CreatePact stubsDir path name providerName v))"
    by (rule on_interrupt_files)
  show "fst (on_interrupt stubsDir path name providerName v) = None
        \<longleftrightarrow> fst (fst (CreatePact stubsDir path name providerName v)) = None"
    by (rule on_interrupt_None_iff)
next
  let ?d = "signetRoot @ ''/mbdata'' @ ''/'' @ proxy_port fl @ ''/stubs''"
  let ?args = "[''npx'', signetRoot @ ''/node_modules/mountebank'',
                     ''--configfile'', signetRoot @ ''/config.ejs'',
                     ''--datadir'', signetRoot @ ''/mbdata'', ''--debug'', ''--nologfile'']"
  assume h: "validateProxyFlags (proxy_path fl) (proxy_port fl) (proxy_target fl) (proxy_name fl)
          (proxy_provider_name fl) = None
        \<and> fst (setupMbConfig (proxy_port fl) (proxy_target fl) (signetRoot @ ''/config.ejs'') w)
            = None
        \<and> (\<forall>e\<in>set es. \<not> is_child_exit e)"
  then have h1: "validateProxyFlags (proxy_path fl) (proxy_port fl) (proxy_target fl)
                   (proxy_name fl) (proxy_provider_name fl) = None"
    and h2: "fst (setupMbConfig (proxy_port fl) (proxy_target fl) (signetRoot @ ''/config.ejs'') w)
               = None"
    and h3: "\<forall>e\<in>set es. \<not> is_child_exit e"
    by simp_all
  from RunE_listening_world [OF h1 h2]
  obtain v where sv: "store v = store w" and fv: "write_fault v = write_fault w"
    and cv: "child v = Running ?args"
    and run: "\<And>sched. RunE fl (Inr signetRoot) None sched w
                = supervise ?d (proxy_path fl) (proxy_name fl) (proxy_provider_name fl) v sched"
    by blast
  note ne = supervise_no_exit [OF h3, of ?d "proxy_path fl" "proxy_name fl"
              "proxy_provider_name fl" v]
  note iff = supervise_blocked_iff [OF h3 sv fv, of ?d "proxy_path fl" "proxy_name fl"
               "proxy_provider_name fl"]
  from ne cv show "child (snd (RunE fl (Inr signetRoot) None es w)) = Running ?args"
    by (simp add: run)
  from iff show "fst (RunE fl (Inr signetRoot) None es w) = Blocked
             \<longleftrightarrow> passes_succeed ?d (proxy_path fl) (proxy_name fl) (proxy_provider_name fl) w es"
    by (simp add: run)
  {
    assume "\<not> passes_succeed ?d (proxy_path fl) (proxy_name fl) (proxy_provider_name fl) w es"
    with iff ne show "fst (RunE fl (Inr signetRoot) None es w) = OsExit 1"
      by (simp add: run)
  }
  {
    assume "passes_succeed ?d (proxy_path fl) (proxy_name fl) (proxy_provider_name fl) w es"
    with iff have b: "fst (supervise ?d (proxy_path fl) (proxy_name fl) (proxy_provider_name fl)
                             v es) = Blocked"
      by simp
    from supervise_append [OF b, of "ChildExit failure # es'"]
    show "fst (RunE fl (Inr signetRoot) None (es @ ChildExit failure # es') w)
                   = Return (case failure of
                               None \<Rightarrow> None
                             | Some msg \<Rightarrow>
                                 Some (ErrorString (''mountebank exited early: '' @ msg)))"
      by (cases failure) (simp_all add: run)
    from supervise_append [OF b, of "ChildExit failure # es'"]
    show "child (snd (RunE fl (Inr signetRoot) None (es @ ChildExit failure # es') w)) = Exited"
      by (cases failure) (simp_all add: run emit_def)
  }
qed

text \<open>Unfolding the command.\<close>

lemmas run_defs = RunE_def validateProxyFlags_def setupMbConfig_def json_Marshal_def
  mbCmd_Start_def signal_Notify_def Println_def on_interrupt_def log_Fatal_def

text \<open>
  Valid flags and captured records: two interrupts at two instants, then the child ends.
\<close>

theorem interrupts_leave_child_running_witness:
  "passes_succeed ''/r/mbdata/8080/stubs'' ''pact.json'' ''web'' ''api'' captured_world
     [Interrupt, Tick JNull, Interrupt]
   \<and> fst (RunE sample_flags (Inr ''/r'') None [Interrupt, Tick JNull, Interrupt] captured_world)
       = Blocked
   \<and> child (snd (RunE sample_flags (Inr ''/r'') None [Interrupt, Tick JNull, Interrupt]
                   captured_world))
       = Running [''npx'', ''/r/node_modules/mountebank'', ''--configfile'', ''/r/config.ejs'',
                  ''--datadir'', ''/r/mbdata'', ''--debug'', ''--nologfile'']
   \<and> fst (RunE sample_flags (Inr ''/r'') None ([Interrupt, Tick JNull, Interrupt] @ [ChildExit None])
            captured_world)
       = Return None
   \<and> files (snd (on_interrupt sample_stubsDir ''pact.json'' ''web'' ''api'' captured_world))
        ''pact.json''
       \<noteq> None"
proof -
  let ?es = "[Interrupt, Tick JNull, Interrupt]"
  have h: "validateProxyFlags (proxy_path sample_flags) (proxy_port sample_flags)
             (proxy_target sample_flags) (proxy_name sample_flags)
             (proxy_provider_name sample_flags) = None
           \<and> fst (setupMbConfig (proxy_port sample_flags) (proxy_target sample_flags)
                   (''/r'' @ ''/config.ejs'') captured_world) = None
           \<and> (\<forall>e\<in>set ?es. \<not> is_child_exit e)"
    by (simp add: sample_flags_def validateProxyFlags_def setupMbConfig_def atoi_defs
          json_Marshal_def osWriteFile_def sample_defs is_child_exit_def)
  have p: "passes_succeed (''/r'' @ ''/mbdata'' @ ''/'' @ proxy_port sample_flags @ ''/stubs'')
             (proxy_path sample_flags) (proxy_name sample_flags)
             (proxy_provider_name sample_flags) captured_world ?es"
    by (simp add: sample_flags_def pass_defs sample_defs)
  have f: "files (snd (CreatePact sample_stubsDir ''pact.json'' ''web'' ''api'' captured_world))
             ''pact.json'' \<noteq> None"
    by (simp add: pass_defs sample_defs)
  note t = interrupts_leave_child_running [where fl = sample_flags and signetRoot = "''/r''"
             and w = captured_world and es = ?es and failure = None and es' = "[]"
             and stubsDir = sample_stubsDir and path = "''pact.json''" and name = "''web''"
             and providerName = "''api''" and v = captured_world]
  note pass = t [THEN conjunct1]
  note u = t [THEN conjunct2, THEN conjunct2, THEN mp, OF h]
  note running = u [THEN conjunct1]
  note blocked = u [THEN conjunct2, THEN conjunct1, THEN iffD2, OF p]
  note ended = u [THEN conjunct2, THEN conjunct2, THEN conjunct2, THEN mp, OF p, THEN conjunct1]
  from p have p': "passes_succeed ''/r/mbdata/8080/stubs'' ''pact.json'' ''web'' ''api''
                     captured_world ?es"
    by (simp add: sample_flags_def)
  from pass f have f': "files (snd (on_interrupt sample_stubsDir ''pact.json'' ''web'' ''api''
                          captured_world)) ''pact.json'' \<noteq> None"
    by simp
  from p' blocked running ended f' show ?thesis by simp
qed

text \<open>
  One interrupt, no exit of the child, and a contract path that cannot be written: the
  command ends with exit status 1 while the child is still running.
\<close>

theorem interrupt_ends_command_counterexample:
  "fst (RunE sample_flags (Inr ''/r'') None [Interrupt] unwritable_world) = OsExit 1
   \<and> child (snd (RunE sample_flags (Inr ''/r'') None [Interrupt] unwritable_world))
       = Running [''npx'', ''/r/node_modules/mountebank'', ''--configfile'', ''/r/config.ejs'',
                  ''--datadir'', ''/r/mbdata'', ''--debug'', ''--nologfile'']"
  by (simp add: run_defs atoi_defs pass_defs sample_defs sample_flags_def)

subsection \<open>Failing to start and exiting early\<close>

lemma setupMbConfig_trace:
  "(fst (setupMbConfig port target cp w) \<noteq> None \<longrightarrow>
      trace (snd (setupMbConfig port target cp w)) = trace w
      \<and> child (snd (setupMbConfig port target cp w)) = child w)
   \<and> (fst (setupMbConfig port target cp w) = None \<longrightarrow>
        (\<exists>d. trace (snd (setupMbConfig port target cp w)) = trace w @ [EvWriteFile cp d])
        \<and> child (snd (setupMbConfig port target cp w)) = child w)"
  by (auto simp: setupMbConfig_def json_Marshal_def osWriteFile_def emit_def
           split: sum.splits option.splits)

lemma RunE_listening:
  assumes "validateProxyFlags (proxy_path fl) (proxy_port fl) (proxy_target fl) (proxy_name fl)
             (proxy_provider_name fl) = None"
    and "fst (setupMbConfig (proxy_port fl) (proxy_target fl) (signetRoot @ ''/config.ejs'') w) = None"
  shows "\<exists>v d args l1 l2.
           trace v = trace w @ [EvWriteFile (signetRoot @ ''/config.ejs'') d, EvStart args,
                                EvPrintln l1, EvPrintln l2, EvNotify, EvGo]
           \<and> (\<forall>sched. RunE fl (Inr signetRoot) None sched w
                  = supervise (signetRoot @ ''/mbdata'' @ ''/'' @ proxy_port fl @ ''/stubs'')
                      (proxy_path fl) (proxy_name fl) (proxy_provider_name fl) v sched)"
proof -
  obtain w1 where s: "setupMbConfig (proxy_port fl) (proxy_target fl) (signetRoot @ ''/config.ejs'') w
                        = (None, w1)"
    using assms(2) by (metis prod.collapse)
  with setupMbConfig_trace [of "proxy_port fl" "proxy_target fl" "signetRoot @ ''/config.ejs''" w]
  obtain d where t: "trace w1 = trace w @ [EvWriteFile (signetRoot @ ''/config.ejs'') d]"
    by auto
  define args where "args = [''npx'', signetRoot @ ''/node_modules/mountebank'', ''--configfile'',
                             signetRoot @ ''/config.ejs'', ''--datadir'', signetRoot @ ''/mbdata'',
                             ''--debug'', ''--nologfile'']"
  define l1 where "l1 = colorGreen @ ''Listening'' @ colorReset
                          @ '' - Signet proxy is listening on port '' @ proxy_port fl
                          @ '' and will proxy messages for '' @ proxy_target fl"
  define v where "v = emit EvGo (signal_Notify (Println (nl @ ''Hit Ctl + C to stop'')
                        (Println l1 (emit (EvStart args) (w1\<lparr>child := Running args\<rparr>)))))"
  have tr: "trace v = trace w @ [EvWriteFile (signetRoot @ ''/config.ejs'') d, EvStart args,
                                EvPrintln l1, EvPrintln (nl @ ''Hit Ctl + C to stop''),
                                EvNotify, EvGo]"
    by (simp add: v_def t signal_Notify_def Println_def emit_def)
  have run: "\<forall>sched. RunE fl (Inr signetRoot) None sched w
                  = supervise (signetRoot @ ''/mbdata'' @ ''/'' @ proxy_port fl @ ''/stubs'')
                      (proxy_path fl) (proxy_name fl) (proxy_provider_name fl) v sched"
    using assms(1) s by (simp add: RunE_def Let_def mbCmd_Start_def v_def args_def l1_def)
  from tr run show ?thesis by blast
qed

text \<open>
  C8. Once the flags are valid and the configuration is written: if the engine cannot be
  started, the command returns the error \<open>failed to start mountebank: \<close> followed by
  the reason, and no child runs; if the engine is started and ends with a failure while
  the command is blocked in \<open>mbCmd.Wait\<close>, the command returns the error
  \<open>mountebank exited early: \<close> followed by the reason of the child. The two errors are
  never equal, whatever the two reasons.
\<close>

theorem start_failure_and_crash:
  "validateProxyFlags (proxy_path fl) (proxy_port fl) (proxy_target fl) (proxy_name fl)
     (proxy_provider_name fl) = None
   \<and> fst (setupMbConfig (proxy_port fl) (proxy_target fl) (signetRoot @ ''/config.ejs'') w) = None
   \<longrightarrow>
     fst (RunE fl (Inr signetRoot) (Some reason) sched w)
       = Return (Some (ErrorString (''failed to start mountebank: '' @ reason)))
     \<and> child (snd (RunE fl (Inr signetRoot) (Some reason) sched w)) = child w
     \<and> (fst (RunE fl (Inr signetRoot) None es w) = Blocked \<longrightarrow>
          fst (RunE fl (Inr signetRoot) None (es @ ChildExit (Some crash) # es') w)
            = Return (Some (ErrorString (''mountebank exited early: '' @ crash))))
     \<and> ErrorString (''failed to start mountebank: '' @ reason)
          \<noteq> ErrorString (''mountebank exited early: '' @ crash)"
proof
  assume a: "validateProxyFlags (proxy_path fl) (proxy_port fl) (proxy_target fl) (proxy_name fl)
     (proxy_provider_name fl) = None
   \<and> fst (setupMbConfig (proxy_port fl) (proxy_target fl) (signetRoot @ ''/config.ejs'') w) = None"
  then obtain w1 where s: "setupMbConfig (proxy_port fl) (proxy_target fl)
                             (signetRoot @ ''/config.ejs'') w = (None, w1)"
    by (metis prod.collapse)
  with setupMbConfig_trace [of "proxy_port fl" "proxy_target fl" "signetRoot @ ''/config.ejs''" w]
  have c1: "child w1 = child w" by simp
  have start: "fst (RunE fl (Inr signetRoot) (Some reason) sched w)
       = Return (Some (ErrorString (''failed to start mountebank: '' @ reason)))
     \<and> child (snd (RunE fl (Inr signetRoot) (Some reason) sched w)) = child w"
    using a s c1 by (simp add: RunE_def Let_def mbCmd_Start_def)
  from a have a1: "validateProxyFlags (proxy_path fl) (proxy_port fl) (proxy_target fl)
                     (proxy_name fl) (proxy_provider_name fl) = None"
    and a2: "fst (setupMbConfig (proxy_port fl) (proxy_target fl)
                   (signetRoot @ ''/config.ejs'') w) = None"
    by simp_all
  from RunE_listening [OF a1 a2]
  obtain v where v: "\<And>sched. RunE fl (Inr signetRoot) None sched w
                  = supervise (signetRoot @ ''/mbdata'' @ ''/'' @ proxy_port fl @ ''/stubs'')
                      (proxy_path fl) (proxy_name fl) (proxy_provider_name fl) v sched"
    by blast
  have crash: "fst (RunE fl (Inr signetRoot) None es w) = Blocked \<longrightarrow>
          fst (RunE fl (Inr signetRoot) None (es @ ChildExit (Some crash) # es') w)
            = Return (Some (ErrorString (''mountebank exited early: '' @ crash)))"
  proof
    assume "fst (RunE fl (Inr signetRoot) None es w) = Blocked"
    then have b: "fst (supervise (signetRoot @ ''/mbdata'' @ ''/'' @ proxy_port fl @ ''/stubs'')
                      (proxy_path fl) (proxy_name fl) (proxy_provider_name fl) v es) = Blocked"
      by (simp add: v)
    from supervise_append [OF b, of "ChildExit (Some crash) # es'"]
    show "fst (RunE fl (Inr signetRoot) None (es @ ChildExit (Some crash) # es') w)
            = Return (Some (ErrorString (''mountebank exited early: '' @ crash)))"
      by (simp add: v)
  qed
  have differ: "ErrorString (''failed to start mountebank: '' @ reason)
          \<noteq> ErrorString (''mountebank exited early: '' @ crash)"
    by simp
  from start crash differ
  show "fst (RunE fl (Inr signetRoot) (Some reason) sched w)
       = Return (Some (ErrorString (''failed to start mountebank: '' @ reason)))
     \<and> child (snd (RunE fl (Inr signetRoot) (Some reason) sched w)) = child w
     \<and> (fst (RunE fl (Inr signetRoot) None es w) = Blocked \<longrightarrow>
          fst (RunE fl (Inr signetRoot) None (es @ ChildExit (Some crash) # es') w)
            = Return (Some (ErrorString (''mountebank exited early: '' @ crash))))
     \<and> ErrorString (''failed to start mountebank: '' @ reason)
          \<noteq> ErrorString (''mountebank exited early: '' @ crash)"
    by blast
qed

text \<open>A start that fails; and a start that succeeds, one interrupt, then a crash.\<close>

theorem start_failure_and_crash_witness:
  "fst (RunE sample_flags (Inr ''/r'') (Some ''exec: npx: not found'') [] captured_world)
     = Return (Some (ErrorString ''failed to start mountebank: exec: npx: not found''))
   \<and> child (snd (RunE sample_flags (Inr ''/r'') (Some ''exec: npx: not found'') [] captured_world))
     = NotStarted
   \<and> fst (RunE sample_flags (Inr ''/r'') None [Interrupt] captured_world) = Blocked
   \<and> fst (RunE sample_flags (Inr ''/r'') None ([Interrupt] @ [ChildExit (Some ''exit status 1'')])
            captured_world)
     = Return (Some (ErrorString ''mountebank exited early: exit status 1''))"
proof -
  have a: "validateProxyFlags (proxy_path sample_flags) (proxy_port sample_flags)
             (proxy_target sample_flags) (proxy_name sample_flags)
             (proxy_provider_name sample_flags) = None
           \<and> fst (setupMbConfig (proxy_port sample_flags) (proxy_target sample_flags)
                   (''/r'' @ ''/config.ejs'') captured_world) = None"
    by (simp add: sample_flags_def validateProxyFlags_def setupMbConfig_def atoi_defs
          json_Marshal_def osWriteFile_def sample_defs)
  have b: "fst (RunE sample_flags (Inr ''/r'') None [Interrupt] captured_world) = Blocked"
    by (simp add: run_defs atoi_defs pass_defs sample_defs sample_flags_def)
  have c: "child captured_world = NotStarted" by (simp add: sample_defs)
  note t = start_failure_and_crash [of sample_flags "''/r''" captured_world
             "''exec: npx: not found''" "[]" "[Interrupt]" "''exit status 1''" "[]",
             THEN mp, OF a]
  note t1 = t [THEN conjunct1]
  note t2 = t [THEN conjunct2, THEN conjunct1]
  note t3 = t [THEN conjunct2, THEN conjunct2, THEN conjunct1, THEN mp, OF b]
  from t1 t2 t3 b c show ?thesis by simp
qed

subsection \<open>When the listener is registered\<close>

lemma RunE_new_events:
  "new_events w (snd (RunE fl npmPkgRoot startFailure sched w)) = []
   \<or> (\<exists>c d. new_events w (snd (RunE fl npmPkgRoot startFailure sched w)) = [EvWriteFile c d])
   \<or> (startFailure = None
       \<and> (\<exists>c d args l1 l2 rest.
             new_events w (snd (RunE fl npmPkgRoot startFailure sched w))
               = [EvWriteFile c d, EvStart args, EvPrintln l1, EvPrintln l2, EvNotify, EvGo] @ rest))"
proof (cases "validateProxyFlags (proxy_path fl) (proxy_port fl) (proxy_target fl) (proxy_name fl)
                (proxy_provider_name fl)")
  case (Some err)
  then show ?thesis by (simp add: RunE_def Let_def new_events_def)
next
  case None
  note valid = None
  show ?thesis
  proof (cases npmPkgRoot)
    case (Inl err)
    with valid show ?thesis by (simp add: RunE_def Let_def new_events_def)
  next
    case (Inr signetRoot)
    let ?cp = "signetRoot @ ''/config.ejs''"
    obtain r w1 where s: "setupMbConfig (proxy_port fl) (proxy_target fl) ?cp w = (r, w1)"
      by (metis surj_pair)
    note st = setupMbConfig_trace [of "proxy_port fl" "proxy_target fl" ?cp w]
    show ?thesis
    proof (cases r)
      case (Some err)
      with s st have "trace w1 = trace w" by simp
      with valid Inr s Some show ?thesis by (simp add: RunE_def Let_def new_events_def)
    next
      case None
      with s st obtain d where t: "trace w1 = trace w @ [EvWriteFile ?cp d]" by auto
      show ?thesis
      proof (cases startFailure)
        case (Some msg)
        with valid Inr s None t show ?thesis
          by (simp add: RunE_def Let_def new_events_def mbCmd_Start_def)
      next
        case sf: None
        from s None have "fst (setupMbConfig (proxy_port fl) (proxy_target fl) ?cp w) = None"
          by simp
        from RunE_listening [OF valid this]
        obtain v d' args l1 l2 where
          v: "trace v = trace w @ [EvWriteFile ?cp d', EvStart args, EvPrintln l1, EvPrintln l2,
                                   EvNotify, EvGo]"
          and run: "\<And>sched. RunE fl (Inr signetRoot) None sched w
                  = supervise (signetRoot @ ''/mbdata'' @ ''/'' @ proxy_port fl @ ''/stubs'')
                      (proxy_path fl) (proxy_name fl) (proxy_provider_name fl) v sched"
          by blast
        from supervise_trace [of "signetRoot @ ''/mbdata'' @ ''/'' @ proxy_port fl @ ''/stubs''"
               "proxy_path fl" "proxy_name fl" "proxy_provider_name fl" v sched]
        obtain evs where "trace (snd (supervise (signetRoot @ ''/mbdata'' @ ''/'' @ proxy_port fl @ ''/stubs'')
                      (proxy_path fl) (proxy_name fl) (proxy_provider_name fl) v sched))
                   = trace v @ evs" ..
        with v run [of sched] Inr sf show ?thesis
          by (simp add: new_events_def)
      qed
    qed
  qed
qed

text \<open>
  C1, as the code has it. In every run of the command in which the listener for the
  interrupt signal gets registered, the child process has been started before: among the
  effects of the run the start of the child is the second (after the write of the
  configuration) and the registration is the fifth (after the two lines printed at
  start-up); and the start has not failed.
\<close>

theorem handler_registered_after_start:
  "first_index is_notify (new_events w (snd (RunE fl npmPkgRoot startFailure sched w))) = Some j
   \<longrightarrow> first_index is_start (new_events w (snd (RunE fl npmPkgRoot startFailure sched w))) = Some 1
       \<and> j = 4 \<and> startFailure = None"
proof
  let ?evs = "new_events w (snd (RunE fl npmPkgRoot startFailure sched w))"
  assume n: "first_index is_notify ?evs = Some j"
  from RunE_new_events [of w fl npmPkgRoot startFailure sched]
  consider "?evs = []" | c d where "?evs = [EvWriteFile c d]"
    | c d args l1 l2 rest where "startFailure = None"
        "?evs = [EvWriteFile c d, EvStart args, EvPrintln l1, EvPrintln l2, EvNotify, EvGo] @ rest"
    by blast
  then show "first_index is_start ?evs = Some 1 \<and> j = 4 \<and> startFailure = None"
  proof cases
    case 1
    with n show ?thesis by simp
  next
    case 2
    with n show ?thesis by (simp add: is_notify_def)
  next
    case 3
    with n show ?thesis by (simp add: is_notify_def is_start_def)
  qed
qed

text \<open>A run with valid flags and one interrupt.\<close>

theorem handler_registered_after_start_witness:
  "first_index is_notify
     (new_events fresh_world (snd (RunE sample_flags (Inr ''/r'') None [Interrupt] fresh_world)))
     = Some 4
   \<and> first_index is_start
     (new_events fresh_world (snd (RunE sample_flags (Inr ''/r'') None [Interrupt] fresh_world)))
     = Some 1"
proof -
  have a: "first_index is_notify
     (new_events fresh_world (snd (RunE sample_flags (Inr ''/r'') None [Interrupt] fresh_world)))
     = Some 4"
    by (simp add: run_defs atoi_defs pass_defs sample_defs sample_flags_def new_events_def
          is_notify_def)
  from handler_registered_after_start [of fresh_world sample_flags "Inr ''/r''" None
         "[Interrupt]" 4, THEN mp, OF a] a
  show ?thesis by simp
qed

text \<open>
  A run with valid flags in which the child starts: the child is started as the second
  effect, the listener is registered as the fifth, so not before the start.
\<close>

theorem handler_registered_before_start_counterexample:
  "first_index is_start
     (new_events fresh_world (snd (RunE sample_flags (Inr ''/r'') None [] fresh_world)))
     = Some 1
   \<and> first_index is_notify
     (new_events fresh_world (snd (RunE sample_flags (Inr ''/r'') None [] fresh_world)))
     = Some 4"
  by (simp add: run_defs atoi_defs pass_defs sample_defs sample_flags_def new_events_def
        is_notify_def is_start_def)

subsection \<open>Deduplication in capture order\<close>

lemma first_seen_keys:
  "record_key ` set (first_seen seen rs) = record_key ` set rs - set seen"
  by (induction rs arbitrary: seen) auto

lemma first_seen_distinct:
  "distinct (map record_key (first_seen seen rs))"
proof (induction rs arbitrary: seen)
  case Nil
  then show ?case by simp
next
  case (Cons r rs)
  have "record_key r \<notin> record_key ` set (first_seen (record_key r # seen) rs)"
    by (simp add: first_seen_keys)
  with Cons.IH show ?case by simp
qed

lemma first_seen_subseq:
  "subseq (first_seen seen rs) rs"
  by (induction rs arbitrary: seen) auto

lemma first_seen_snoc:
  "first_seen seen (rs @ [r]) =
     (if record_key r \<in> set seen \<union> record_key ` set rs then first_seen seen rs
      else first_seen seen rs @ [r])"
  by (induction rs arbitrary: seen) auto

text \<open>
  C6. Two records have the same key exactly when they agree on method, path, query,
  request body, response status, response body and response headers. The records kept by
  the synthesizer have pairwise different keys, cover every key of the input, and are a
  subsequence of the input. The interactions come in first-seen order: no record, no
  interaction; a further record at the end of the input changes nothing when its key has
  been seen and otherwise adds its interaction at the end. There are as many
  interactions as keys, and the flag says whether there is any record. In particular the
  records \<open>[A, B, A', C]\<close>, with \<open>A'\<close> of the same key as \<open>A\<close> and the keys
  of \<open>A\<close>, \<open>B\<close>, \<open>C\<close> different, give exactly the interactions of
  \<open>[A, B, C]\<close> in that order.
\<close>

theorem synthesize_first_seen_order:
  "(record_key r1 = record_key r2 \<longleftrightarrow>
      ri_method r1 = ri_method r2 \<and> ri_path r1 = ri_path r2 \<and> ri_query r1 = ri_query r2
      \<and> ri_requestBody r1 = ri_requestBody r2 \<and> ri_status r1 = ri_status r2
      \<and> ri_responseBody r1 = ri_responseBody r2
      \<and> ri_responseHeaders r1 = ri_responseHeaders r2)
   \<and> distinct (map record_key (first_seen [] rs))
   \<and> record_key ` set (first_seen [] rs) = record_key ` set rs
   \<and> subseq (first_seen [] rs) rs
   \<and> interactions (fst (synthesize [] name providerName meta)) = []
   \<and> interactions (fst (synthesize (rs @ [r]) name providerName meta)) =
       (if record_key r \<in> record_key ` set rs
        then interactions (fst (synthesize rs name providerName meta))
        else interactions (fst (synthesize rs name providerName meta)) @ [interaction_of r])
   \<and> length (interactions (fst (synthesize rs name providerName meta)))
       = card (record_key ` set rs)
   \<and> snd (synthesize rs name providerName meta) = (rs \<noteq> [])
   \<and> (record_key a' = record_key a \<and> record_key a \<noteq> record_key b
        \<and> record_key a \<noteq> record_key c \<and> record_key b \<noteq> record_key c
      \<longrightarrow> interactions (fst (synthesize [a, b, a', c] name providerName meta))
            = [interaction_of a, interaction_of b, interaction_of c])"
proof -
  have len: "length (interactions (fst (synthesize rs name providerName meta)))
       = card (record_key ` set rs)"
  proof -
    have "length (first_seen [] rs) = length (map record_key (first_seen [] rs))" by simp
    also have "\<dots> = card (set (map record_key (first_seen [] rs)))"
      by (rule distinct_card [symmetric]) (rule first_seen_distinct)
    also have "\<dots> = card (record_key ` set rs)"
      using first_seen_keys [of "[]" rs] by simp
    finally show ?thesis by (simp add: synthesize_def Let_def)
  qed
  have nonempty: "snd (synthesize rs name providerName meta) = (rs \<noteq> [])"
    by (cases rs) (simp_all add: synthesize_def Let_def)
  have inst: "record_key a' = record_key a \<and> record_key a \<noteq> record_key b
        \<and> record_key a \<noteq> record_key c \<and> record_key b \<noteq> record_key c
      \<longrightarrow> interactions (fst (synthesize [a, b, a', c] name providerName meta))
            = [interaction_of a, interaction_of b, interaction_of c]"
    by (auto simp: synthesize_def Let_def)
  have snoc: "interactions (fst (synthesize (rs @ [r]) name providerName meta)) =
       (if record_key r \<in> record_key ` set rs
        then interactions (fst (synthesize rs name providerName meta))
        else interactions (fst (synthesize rs name providerName meta)) @ [interaction_of r])"
    by (simp add: synthesize_def Let_def first_seen_snoc)
  have empty: "interactions (fst (synthesize [] name providerName meta)) = []"
    by (simp add: synthesize_def)
  have key: "record_key r1 = record_key r2 \<longleftrightarrow>
      ri_method r1 = ri_method r2 \<and> ri_path r1 = ri_path r2 \<and> ri_query r1 = ri_query r2
      \<and> ri_requestBody r1 = ri_requestBody r2 \<and> ri_status r1 = ri_status r2
      \<and> ri_responseBody r1 = ri_responseBody r2
      \<and> ri_responseHeaders r1 = ri_responseHeaders r2"
    by (simp add: record_key_def)
  from first_seen_distinct [of "[]" rs] first_seen_keys [of "[]" rs] first_seen_subseq [of "[]" rs]
    empty snoc len nonempty inst key
  show ?thesis by simp
qed

text \<open>
  Four sample records: the third has the key of the first, with other request headers.
\<close>

theorem synthesize_first_seen_order_witness:
  "record_key sample_A2 = record_key sample_A \<and> sample_A2 \<noteq> sample_A
   \<and> record_key sample_A \<noteq> record_key sample_B
   \<and> record_key sample_A \<noteq> record_key sample_C
   \<and> record_key sample_B \<noteq> record_key sample_C
   \<and> interactions (fst (synthesize [sample_A, sample_B, sample_A2, sample_C] ''web'' ''api'' JNull))
       = [interaction_of sample_A, interaction_of sample_B, interaction_of sample_C]
   \<and> map description
       (interactions (fst (synthesize [sample_A, sample_B, sample_A2, sample_C] ''web'' ''api'' JNull)))
       = [''GET /users'', ''POST /users'', ''GET /orders'']"
proof -
  have k: "record_key sample_A2 = record_key sample_A \<and> record_key sample_A \<noteq> record_key sample_B
        \<and> record_key sample_A \<noteq> record_key sample_C \<and> record_key sample_B \<noteq> record_key sample_C"
    by (simp add: sample_defs)
  have d: "sample_A2 \<noteq> sample_A"
  proof
    assume "sample_A2 = sample_A"
    then have "ri_captureSequence sample_A2 = ri_captureSequence sample_A" by simp
    then show False by (simp add: sample_defs)
  qed
  note t = synthesize_first_seen_order [where rs = "[]" and name = "''web''"
             and providerName = "''api''" and meta = JNull and a = sample_A and a' = sample_A2
             and b = sample_B and c = sample_C]
  note i = t [THEN conjunct2, THEN conjunct2, THEN conjunct2, THEN conjunct2, THEN conjunct2,
              THEN conjunct2, THEN conjunct2, THEN conjunct2, THEN mp, OF k]
  from i k d show ?thesis by (simp add: interaction_of_def sample_defs)
qed

subsection \<open>Repeated passes\<close>

lemma CreatePact_written:
  assumes "snd (fst (CreatePact d p n pn w))"
  shows "\<exists>rs. store w d = Entries rs
          \<and> files (snd (CreatePact d p n pn w)) p
              = Some (Contract_json (fst (synthesize (valid_records rs) n pn (stamp w))))"
  using assms
proof -
  obtain rs where e: "store w d = Entries rs"
    using assms
    by (cases "store w d") (simp_all add: CreatePact_def readInteractions_def synthesize_def)
  let ?w1 = "w\<lparr>trace := trace w @ map (\<lambda>_. EvWarn d) (filter (\<lambda>e. e = Malformed) rs)\<rparr>"
  obtain pact ok where sy: "synthesize (valid_records rs) n pn (stamp w) = (pact, ok)"
    by (metis surj_pair)
  from assms e sy have ok: "ok"
    by (cases ok) (simp_all add: CreatePact_def readInteractions_def)
  from assms e sy ok have "write_fault w p = None"
    by (cases "write_fault w p")
       (simp_all add: CreatePact_def readInteractions_def writeContract_def osWriteFile_def)
  with e sy ok show ?thesis
    by (simp add: CreatePact_def readInteractions_def writeContract_def osWriteFile_def emit_def)
qed

lemma contract_body_synthesize:
  "contract_body (Contract_json (fst (synthesize rs n pn meta)))
     = JObject [(''consumer'', JObject [(''name'', JString n)]),
                (''provider'', JObject [(''name'', JString pn)]),
                (''interactions'',
                 JArray (map Interaction_json (map interaction_of (first_seen [] rs))))]"
  by (simp add: contract_body_def Contract_json_def synthesize_def Let_def)

lemma written_append:
  "written (xs @ ys) = written xs @ written ys"
  by (induction xs rule: written.induct) simp_all

lemma written_warnings:
  "written (map (\<lambda>_. EvWarn d) xs) = []"
  by (induction xs) simp_all

lemma on_interrupt_writes:
  assumes "snd (fst (CreatePact d p n pn w))"
  shows "\<exists>rs. store w d = Entries rs
          \<and> fst (on_interrupt d p n pn w) = None
          \<and> files (snd (on_interrupt d p n pn w)) p
              = Some (Contract_json (fst (synthesize (valid_records rs) n pn (stamp w))))
          \<and> written (new_events w (snd (on_interrupt d p n pn w)))
              = [(p, Contract_json (fst (synthesize (valid_records rs) n pn (stamp w))))]"
proof -
  obtain rs where e: "store w d = Entries rs"
    using assms
    by (cases "store w d") (simp_all add: CreatePact_def readInteractions_def synthesize_def)
  obtain pact ok where sy: "synthesize (valid_records rs) n pn (stamp w) = (pact, ok)"
    by (metis surj_pair)
  from assms e sy have ok: "ok"
    by (cases ok) (simp_all add: CreatePact_def readInteractions_def)
  from assms e sy ok have wf: "write_fault w p = None"
    by (cases "write_fault w p")
       (simp_all add: CreatePact_def readInteractions_def writeContract_def osWriteFile_def)
  from e sy ok wf
  have "fst (on_interrupt d p n pn w) = None
          \<and> files (snd (on_interrupt d p n pn w)) p = Some (Contract_json pact)
          \<and> written (new_events w (snd (on_interrupt d p n pn w))) = [(p, Contract_json pact)]"
    by (simp add: on_interrupt_def Println_def CreatePact_def readInteractions_def
          writeContract_def osWriteFile_def emit_def new_events_def written_append
          written_warnings)
  with e sy show ?thesis by simp
qed

lemma supervise_Interrupt_None:
  "fst (on_interrupt d p n pn w) = None \<Longrightarrow>
     supervise d p n pn w (Interrupt # es) = supervise d p n pn (snd (on_interrupt d p n pn w)) es"
  by (cases "on_interrupt d p n pn w") simp

lemma supervise_ticks:
  "supervise d p n pn w (map Tick js @ es)
     = supervise d p n pn (foldl (\<lambda>w j. w\<lparr>stamp := j\<rparr>) w js) es"
  by (induction js arbitrary: w) simp_all

lemma ticks_frame:
  "store (foldl (\<lambda>w j. w\<lparr>stamp := j\<rparr>) w js) = store w"
  "write_fault (foldl (\<lambda>w j. w\<lparr>stamp := j\<rparr>) w js) = write_fault w"
  "trace (foldl (\<lambda>w j. w\<lparr>stamp := j\<rparr>) w js) = trace w"
  "files (foldl (\<lambda>w j. w\<lparr>stamp := j\<rparr>) w js) = files w"
  by (induction js arbitrary: w) simp_all

lemma new_events_trans:
  assumes "trace w1 = trace w @ xs" and "trace w2 = trace w1 @ ys"
  shows "new_events w w2 = new_events w w1 @ new_events w1 w2"
  using assms by (simp add: new_events_def)

text \<open>
  C9. When a pass over the captures writes a contract, two interrupts in a row, with no
  capture between them and any passing of time, make the listener write the contract
  twice, and these are the only writes: the first document is the one a single interrupt
  leaves at the destination, the second is the one at the destination in the end, and
  the two have the same body (consumer, provider and interactions), whatever the metadata
  of the two instants; the command stays blocked. An interrupt leaves the capture
  directories as they are. More generally, two passes over the same snapshot of the
  capture directory, with the same destination, return the same result, and when they
  write, the two contract documents have the same body.
\<close>

theorem repeated_interrupts_same_contract:
  "(snd (fst (CreatePact stubsDir path name providerName w)) \<longrightarrow>
      (\<exists>doc1 doc2.
          written (new_events w (snd (supervise stubsDir path name providerName w
                                        (Interrupt # map Tick js @ [Interrupt]))))
            = [(path, doc1), (path, doc2)]
          \<and> contract_body doc1 = contract_body doc2
          \<and> files (snd (supervise stubsDir path name providerName w [Interrupt])) path
              = Some doc1
          \<and> files (snd (supervise stubsDir path name providerName w
                           (Interrupt # map Tick js @ [Interrupt]))) path
              = Some doc2)
      \<and> fst (supervise stubsDir path name providerName w (Interrupt # map Tick js @ [Interrupt]))
          = Blocked)
   \<and> store (snd (supervise stubsDir path name providerName w [Interrupt])) = store w
   \<and> (store w' stubsDir = store w stubsDir \<and> write_fault w' path = write_fault w path \<longrightarrow>
        fst (CreatePact stubsDir path name providerName w')
          = fst (CreatePact stubsDir path name providerName w)
        \<and> (snd (fst (CreatePact stubsDir path name providerName w)) \<longrightarrow>
             (\<exists>doc doc'.
                files (snd (CreatePact stubsDir path name providerName w)) path = Some doc
                \<and> files (snd (CreatePact stubsDir path name providerName w')) path = Some doc'
                \<and> contract_body doc' = contract_body doc)))"
proof (intro conjI impI)
  assume ok: "snd (fst (CreatePact stubsDir path name providerName w))"
  let ?w1 = "snd (on_interrupt stubsDir path name providerName w)"
  let ?w2 = "foldl (\<lambda>w j. w\<lparr>stamp := j\<rparr>) ?w1 js"
  let ?w3 = "snd (on_interrupt stubsDir path name providerName ?w2)"
  from on_interrupt_writes [OF ok] obtain rs where
    e: "store w stubsDir = Entries rs"
    and n1: "fst (on_interrupt stubsDir path name providerName w) = None"
    and f1: "files ?w1 path
               = Some (Contract_json (fst (synthesize (valid_records rs) name providerName (stamp w))))"
    and wr1: "written (new_events w ?w1)
               = [(path, Contract_json (fst (synthesize (valid_records rs) name providerName (stamp w))))]"
    by blast
  have fr2: "store ?w2 = store w" "write_fault ?w2 = write_fault w"
    by (simp_all add: ticks_frame on_interrupt_frame)
  have "fst (CreatePact stubsDir path name providerName ?w2)
          = fst (CreatePact stubsDir path name providerName w)"
    by (rule CreatePact_result_cong) (simp_all add: fr2)
  with ok have ok2: "snd (fst (CreatePact stubsDir path name providerName ?w2))" by simp
  from on_interrupt_writes [OF ok2] e fr2 have
    n2: "fst (on_interrupt stubsDir path name providerName ?w2) = None"
    and f2: "files ?w3 path
               = Some (Contract_json (fst (synthesize (valid_records rs) name providerName (stamp ?w2))))"
    and wr2: "written (new_events ?w2 ?w3)
               = [(path, Contract_json (fst (synthesize (valid_records rs) name providerName (stamp ?w2))))]"
    by auto
  have run1: "supervise stubsDir path name providerName w [Interrupt] = (Blocked, ?w1)"
    by (simp only: supervise_Interrupt_None [OF n1] supervise.simps(1))
  have run: "supervise stubsDir path name providerName w (Interrupt # map Tick js @ [Interrupt])
               = (Blocked, ?w3)"
  proof -
    have "supervise stubsDir path name providerName w (Interrupt # map Tick js @ [Interrupt])
            = supervise stubsDir path name providerName ?w1 (map Tick js @ [Interrupt])"
      by (rule supervise_Interrupt_None [OF n1])
    also have "\<dots> = supervise stubsDir path name providerName ?w2 [Interrupt]"
      by (rule supervise_ticks)
    also have "\<dots> = (Blocked, ?w3)"
      by (simp only: supervise_Interrupt_None [OF n2] supervise.simps(1))
    finally show ?thesis .
  qed
  from on_interrupt_trace [of stubsDir path name providerName w]
  obtain xs where t1: "trace ?w1 = trace w @ xs" ..
  from on_interrupt_trace [of stubsDir path name providerName ?w2]
  obtain ys where t3: "trace ?w3 = trace ?w1 @ ys" by (auto simp: ticks_frame)
  have ne2: "new_events ?w2 ?w3 = new_events ?w1 ?w3"
    by (simp add: new_events_def ticks_frame)
  from new_events_trans [OF t1 t3] wr1 wr2 ne2
  have wr: "written (new_events w ?w3)
              = [(path, Contract_json (fst (synthesize (valid_records rs) name providerName (stamp w)))),
                 (path, Contract_json (fst (synthesize (valid_records rs) name providerName (stamp ?w2))))]"
    by (simp add: written_append)
  have body: "contract_body (Contract_json (fst (synthesize (valid_records rs) name providerName (stamp w))))
                = contract_body (Contract_json (fst (synthesize (valid_records rs) name providerName (stamp ?w2))))"
    by (simp add: contract_body_synthesize)
  from wr body f1 f2 run run1
  show "\<exists>doc1 doc2.
          written (new_events w (snd (supervise stubsDir path name providerName w
                                        (Interrupt # map Tick js @ [Interrupt]))))
            = [(path, doc1), (path, doc2)]
          \<and> contract_body doc1 = contract_body doc2
          \<and> files (snd (supervise stubsDir path name providerName w [Interrupt])) path
              = Some doc1
          \<and> files (snd (supervise stubsDir path name providerName w
                           (Interrupt # map Tick js @ [Interrupt]))) path
              = Some doc2"
    by simp
  from run
  show "fst (supervise stubsDir path name providerName w (Interrupt # map Tick js @ [Interrupt]))
          = Blocked"
    by simp
next
  show "store (snd (supervise stubsDir path name providerName w [Interrupt])) = store w"
    using on_interrupt_frame(2) [of stubsDir path name providerName w]
    by (cases "on_interrupt stubsDir path name providerName w") (auto split: option.splits)
next
  assume s: "store w' stubsDir = store w stubsDir \<and> write_fault w' path = write_fault w path"
  then have s1: "store w' stubsDir = store w stubsDir"
    and s2: "write_fault w' path = write_fault w path"
    by simp_all
  from s1 s2 show r: "fst (CreatePact stubsDir path name providerName w')
          = fst (CreatePact stubsDir path name providerName w)"
    by (rule CreatePact_result_cong)
  assume ok: "snd (fst (CreatePact stubsDir path name providerName w))"
  with r have ok': "snd (fst (CreatePact stubsDir path name providerName w'))" by simp
  from CreatePact_written [OF ok] CreatePact_written [OF ok'] s
  show "\<exists>doc doc'.
                files (snd (CreatePact stubsDir path name providerName w)) path = Some doc
                \<and> files (snd (CreatePact stubsDir path name providerName w')) path = Some doc'
                \<and> contract_body doc' = contract_body doc"
    by (auto simp: contract_body_synthesize)
qed

text \<open>
  Two interrupts over the sample captures at two instants: two writes, the documents
  differ (in their metadata) and their bodies are equal. With a capture of a new exchange
  between the two interrupts the bodies differ.
\<close>

theorem repeated_interrupts_same_contract_witness:
  "snd (fst (CreatePact sample_stubsDir ''pact.json'' ''web'' ''api'' captured_world))
   \<and> fst (supervise sample_stubsDir ''pact.json'' ''web'' ''api'' captured_world
            (Interrupt # map Tick [JObject [(''generatedAt'', JInt 2)]] @ [Interrupt]))
       = Blocked
   \<and> length (written (new_events captured_world
        (snd (supervise sample_stubsDir ''pact.json'' ''web'' ''api'' captured_world
                (Interrupt # map Tick [JObject [(''generatedAt'', JInt 2)]] @ [Interrupt])))))
       = 2
   \<and> files (snd (supervise sample_stubsDir ''pact.json'' ''web'' ''api'' captured_world
                   (Interrupt # map Tick [JObject [(''generatedAt'', JInt 2)]] @ [Interrupt])))
        ''pact.json''
       \<noteq> files (snd (supervise sample_stubsDir ''pact.json'' ''web'' ''api'' captured_world
                       [Interrupt])) ''pact.json''
   \<and> map_option contract_body
        (files (snd (supervise sample_stubsDir ''pact.json'' ''web'' ''api'' captured_world
                   (Interrupt # map Tick [JObject [(''generatedAt'', JInt 2)]] @ [Interrupt])))
           ''pact.json'')
       = map_option contract_body
           (files (snd (supervise sample_stubsDir ''pact.json'' ''web'' ''api'' captured_world
                          [Interrupt])) ''pact.json'')
   \<and> map_option contract_body
        (files (snd (supervise sample_stubsDir ''pact.json'' ''web'' ''api'' captured_world
                   [Interrupt,
                    Capture sample_stubsDir (Captured (sample_C\<lparr>ri_path := ''/items''\<rparr>)),
                    Interrupt]))
           ''pact.json'')
       \<noteq> map_option contract_body
           (files (snd (supervise sample_stubsDir ''pact.json'' ''web'' ''api'' captured_world
                          [Interrupt])) ''pact.json'')"
proof -
  let ?js = "[JObject [(''generatedAt'', JInt 2)]]"
  have contrast: "map_option contract_body
        (files (snd (supervise sample_stubsDir ''pact.json'' ''web'' ''api'' captured_world
                   [Interrupt,
                    Capture sample_stubsDir (Captured (sample_C\<lparr>ri_path := ''/items''\<rparr>)),
                    Interrupt]))
           ''pact.json'')
       \<noteq> map_option contract_body
           (files (snd (supervise sample_stubsDir ''pact.json'' ''web'' ''api'' captured_world
                          [Interrupt])) ''pact.json'')"
    by (simp add: on_interrupt_def Println_def pass_defs sample_defs Contract_json_def
          contract_body_def capture_def interaction_of_def Interaction_json_def)
  have ok: "snd (fst (CreatePact sample_stubsDir ''pact.json'' ''web'' ''api'' captured_world))"
    by (simp add: pass_defs sample_defs)
  have differ: "files (snd (supervise sample_stubsDir ''pact.json'' ''web'' ''api'' captured_world
                   (Interrupt # map Tick ?js @ [Interrupt]))) ''pact.json''
       \<noteq> files (snd (supervise sample_stubsDir ''pact.json'' ''web'' ''api'' captured_world
                       [Interrupt])) ''pact.json''"
    by (simp add: on_interrupt_def Println_def pass_defs sample_defs Contract_json_def)
  note t = repeated_interrupts_same_contract [of sample_stubsDir "''pact.json''" "''web''"
             "''api''" captured_world ?js captured_world]
  note u = t [THEN conjunct1, THEN mp, OF ok]
  from u obtain doc1 doc2 where
    w: "written (new_events captured_world
          (snd (supervise sample_stubsDir ''pact.json'' ''web'' ''api'' captured_world
                  (Interrupt # map Tick ?js @ [Interrupt]))))
        = [(''pact.json'', doc1), (''pact.json'', doc2)]"
    and b: "contract_body doc1 = contract_body doc2"
    and f1: "files (snd (supervise sample_stubsDir ''pact.json'' ''web'' ''api'' captured_world
                          [Interrupt])) ''pact.json'' = Some doc1"
    and f2: "files (snd (supervise sample_stubsDir ''pact.json'' ''web'' ''api'' captured_world
                   (Interrupt # map Tick ?js @ [Interrupt]))) ''pact.json'' = Some doc2"
    by blast
  from u have bl: "fst (supervise sample_stubsDir ''pact.json'' ''web'' ''api'' captured_world
            (Interrupt # map Tick ?js @ [Interrupt])) = Blocked"
    by blast
  from w have len: "length (written (new_events captured_world
        (snd (supervise sample_stubsDir ''pact.json'' ''web'' ''api'' captured_world
                (Interrupt # map Tick ?js @ [Interrupt]))))) = 2"
    by simp
  from f1 f2 b have same: "map_option contract_body
        (files (snd (supervise sample_stubsDir ''pact.json'' ''web'' ''api'' captured_world
                   (Interrupt # map Tick ?js @ [Interrupt]))) ''pact.json'')
       = map_option contract_body
           (files (snd (supervise sample_stubsDir ''pact.json'' ''web'' ''api'' captured_world
                          [Interrupt])) ''pact.json'')"
    by simp
  from ok bl len differ same contrast show ?thesis by blast
qed

end
